theory Spec2Isabelle
  imports Main "HOL-Library.Word"
begin

unbundle bit_operations_syntax

section \<open>Strings, buffers and failures\<close>

text \<open>
  The development embeds \<open>sgp/FileMan.cc\<close>. A C string is a \<^typ>\<open>string\<close>: the bytes
  before its terminating NUL. A byte is an \<open>8 word\<close>, \<open>UINT32\<close> a \<open>32 word\<close> and \<open>size_t\<close>
  a \<open>64 word\<close> (the LP64 targets on which the case-sensitive code is compiled).

  A C++ exception is a value: \<open>runtime_error\<close> and \<open>logic_error\<close> carry their message.
  \<open>out_of_bounds\<close> stands for a read or a write outside a fixed-size buffer, where the C
  program has no defined behaviour; the model stops there. \<open>aborted\<close> is a call of
  \<open>abort()\<close>.
\<close>

type_synonym byte = "8 word"
type_synonym UINT32 = "32 word"
type_synonym size_t = "64 word"

datatype error = runtime_error string | logic_error string | out_of_bounds | aborted

text \<open>
  Modelled from the spec: the separator macro \<open>PATH_SEPARATOR\<close> is declared in a header that
  is not among the sources; the spec calls it the canonical separator, and the code compiled
  for case-sensitive filesystems writes the literal \<open>"/"\<close> where it inserts one.
\<close>

definition PATH_SEPARATOR :: char where
  "PATH_SEPARATOR = CHR ''/''"

text \<open>\<open>snprintf(buf, size, fmt, ...)\<close>: the formatted text, cut to \<open>size - 1\<close> bytes.\<close>

definition snprintf :: "nat \<Rightarrow> string \<Rightarrow> string" where
  "snprintf n formatted = take (n - 1) formatted"

text \<open>
  \<open>strncat(dest, src, n)\<close> appends at most \<open>n\<close> bytes of \<open>src\<close> and a NUL to the string in
  \<open>dest\<close>; it does not know the capacity of \<open>dest\<close>, so it writes past the end of a buffer
  of \<open>capacity\<close> bytes when the result and its NUL do not fit.
\<close>

definition strncat :: "nat \<Rightarrow> string \<Rightarrow> string \<Rightarrow> nat \<Rightarrow> error + string" where
  "strncat capacity dest src n =
     (if length dest + length (take n src) + 1 \<le> capacity
      then Inr (dest @ take n src) else Inl out_of_bounds)"

section \<open>Path utilities\<close>

text \<open>
  \<open>std::string FileMan::joinPaths(const std::string &first, const char *second)\<close>; the
  overload taking \<open>const char *first\<close> converts and calls it.
  \<open>second[0]\<close> of an empty C string is its NUL, which is not the separator.
\<close>

definition joinPaths :: "string \<Rightarrow> string \<Rightarrow> string" where
  "joinPaths first second =
     (let result = first;
          result = (if length result = 0 \<or> result ! (length result - 1) \<noteq> PATH_SEPARATOR
                    then (if second = [] \<or> hd second \<noteq> PATH_SEPARATOR
                          then result @ [PATH_SEPARATOR] else result)
                    else result)
      in result @ second)"

text \<open>
  \<open>void FileMan::joinPaths(const char *first, const char *second, char *outputBuf,
  int outputBufSize)\<close>, every caller passing the size of \<open>outputBuf\<close>.
  \<open>strncpy\<close> leaves \<open>outputBuf\<close> without a NUL when \<open>first\<close> has \<open>outputBufSize\<close> bytes or
  more, and the \<open>strncat\<close> that follows then runs past the buffer;
  \<open>first[strlen(first) - 1]\<close> reads before the string when \<open>first\<close> is empty.
  The separator is appended whatever \<open>second\<close> begins with.
\<close>

definition joinPaths_buf :: "string \<Rightarrow> string \<Rightarrow> nat \<Rightarrow> error + string" where
  "joinPaths_buf first second outputBufSize =
     (if outputBufSize \<le> length first \<or> first = [] then Inl out_of_bounds
      else
        (case (if first ! (length first - 1) \<noteq> PATH_SEPARATOR
               then strncat outputBufSize first ''/'' outputBufSize
               else Inr first) of
           Inl e \<Rightarrow> Inl e
         | Inr outputBuf \<Rightarrow> strncat outputBufSize outputBuf second outputBufSize))"

section \<open>The machine\<close>

text \<open>
  A \<open>FILE\<close> stream of the C library: the bytes of the file, the position, whether the
  stream was opened for reading and for writing, and \<open>room\<close>, the number of bytes the device
  still accepts (a full disk accepts none).
\<close>

record FILE =
  contents :: "byte list"
  offset :: nat
  can_read :: bool
  can_write :: bool
  room :: nat

text \<open>
  \<open>fread(ptr, size, nmemb, stream)\<close> returns the number of complete items read, here with
  the bytes stored at \<open>ptr\<close> and the stream afterwards. When \<open>size\<close> or \<open>nmemb\<close> is zero it
  returns zero and leaves the stream as it is (ISO C, 7.21.8.1).
\<close>

definition fread :: "nat \<Rightarrow> nat \<Rightarrow> FILE \<Rightarrow> nat \<times> byte list \<times> FILE" where
  "fread sz nmemb stream =
     (if sz = 0 \<or> nmemb = 0 then (0, [], stream)
      else
        (let got = (if can_read stream
                    then take (sz * nmemb) (drop (offset stream) (contents stream)) else [])
         in (length got div sz, got, stream\<lparr>offset := offset stream + length got\<rparr>)))"

text \<open>
  Modelled from the spec: \<open>LibraryFile\<close> and \<open>LoadDataFromLibrary\<close> belong to the library
  database (\<open>LibraryDataBase.h\<close>), which is not among the sources. The spec describes an
  archive entry as a reference into an open archive plus a cursor position, with the length
  of the entry stored in the index, and the read as the archive's bounded read
  \<open>readEntry(entryHandle, buffer, count) -> success\<close>: it supplies \<open>count\<close> bytes from the
  cursor and advances the cursor when that many bytes remain, and fails otherwise.
  \<open>FileGetPos\<close> reads the cursor as the field \<open>uiFilePosInFile\<close>, and the count is a \<open>UINT32\<close>.
\<close>

record LibraryFile =
  entry_bytes :: "byte list"
  uiFilePosInFile :: UINT32

definition LoadDataFromLibrary :: "LibraryFile \<Rightarrow> UINT32 \<Rightarrow> bool \<times> byte list \<times> LibraryFile" where
  "LoadDataFromLibrary lib uiBytesToRead =
     (if unat (uiFilePosInFile lib) + unat uiBytesToRead \<le> length (entry_bytes lib)
      then (True,
            take (unat uiBytesToRead) (drop (unat (uiFilePosInFile lib)) (entry_bytes lib)),
            lib\<lparr>uiFilePosInFile := uiFilePosInFile lib + uiBytesToRead\<rparr>)
      else (False, [], lib))"

text \<open>
  Directory entries as \<open>readdir\<close> returns them: \<open>d_type\<close> is an \<open>unsigned char\<close>.
  \<open>DT_REG\<close> and \<open>DT_DIR\<close> have their values of \<open>dirent.h\<close>.
\<close>

record dirent =
  d_type :: byte
  d_name :: string

definition DT_REG :: byte where
  "DT_REG = 8"

definition DT_DIR :: byte where
  "DT_DIR = 4"

text \<open>
  What the system knows of a path. \<open>unlink\<close> does not follow a symbolic link:
  \<open>is_directory\<close> says whether the name itself is a directory, and \<open>unlink_refused\<close> whether
  the system refuses to remove the name (a directory without write permission, a read-only
  filesystem). \<open>stat\<close> follows symbolic links: \<open>stat_fails\<close> says that it fails (a link to
  nothing), and \<open>S_ISDIR\<close> and \<open>S_IWUSR\<close> are read from the mode that it reports otherwise.
  A symbolic link to a directory has \<open>is_directory\<close> false and \<open>S_ISDIR\<close> true.
\<close>

record inode =
  is_directory :: bool
  unlink_refused :: bool
  stat_fails :: bool
  S_ISDIR :: bool
  S_IWUSR :: bool

datatype errno = ENOENT | EISDIR | EACCES

text \<open>
  The machine the file manager runs on. \<open>sys_open path mode\<close> is the descriptor \<open>open\<close>
  returns (negative on failure) and \<open>fdopen\<close> the stream made from a descriptor.
  \<open>opendir\<close> gives the entries of a directory in the order \<open>readdir\<close> returns them, or
  \<open>None\<close> when the directory cannot be opened. \<open>glob\<close>
  gives the paths matching a pattern in no particular order (\<open>GLOB_NOSORT\<close>), none when
  nothing matches, and \<open>None\<close> on any other failure.
  \<open>s_dataDir\<close> is the static variable of that name and \<open>CASE_SENSITIVE_FS\<close> the build
  option.

  Modelled from the spec: \<open>OpenFileFromLibrary\<close> belongs to the library database, which is
  not among the sources; the spec gives it as \<open>tryOpenEntry(name) -> optional(entryHandle)\<close>.
\<close>

record world =
  s_dataDir :: string
  CASE_SENSITIVE_FS :: bool
  sys_open :: "string \<Rightarrow> int \<Rightarrow> int"
  fdopen :: "int \<Rightarrow> string \<Rightarrow> FILE option"
  opendir :: "string \<Rightarrow> dirent list option"
  OpenFileFromLibrary :: "string \<Rightarrow> LibraryFile option"
  glob :: "string \<Rightarrow> string list option"
  nodes :: "string \<Rightarrow> inode option"

text \<open>The calls made to the operating system and to the library database, in order.\<close>

datatype syscall =
    Open string
  | Opendir string
  | LibraryOpen string

section \<open>Case-insensitive lookup\<close>

text \<open>
  \<open>tolower\<close> and \<open>strcasecmp\<close> in the C locale: bytes are compared after folding
  \<open>A\<close>..\<open>Z\<close> to lower case, the end of a string counting as the byte 0.
\<close>

definition tolower :: "char \<Rightarrow> char" where
  "tolower c = (if 65 \<le> (of_char c :: nat) \<and> (of_char c :: nat) \<le> 90
                then char_of (of_char c + 32 :: nat) else c)"

fun strcasecmp :: "string \<Rightarrow> string \<Rightarrow> int" where
  "strcasecmp [] [] = 0"
| "strcasecmp [] (y # ys) = - int (of_char (tolower y))"
| "strcasecmp (x # xs) [] = int (of_char (tolower x))"
| "strcasecmp (x # xs) (y # ys) =
     (if tolower x = tolower y then strcasecmp xs ys
      else int (of_char (tolower x)) - int (of_char (tolower y)))"

text \<open>The test of the \<open>readdir\<close> loop in \<open>findObjectCaseInsensitive\<close>.\<close>

definition entry_matches :: "string \<Rightarrow> byte \<Rightarrow> dirent \<Rightarrow> bool" where
  "entry_matches name objectTypes entry \<longleftrightarrow>
     (d_type entry AND objectTypes) \<noteq> 0 \<and> strcasecmp name (d_name entry) = 0"

text \<open>
  The loop body copies the name with \<open>strncpy(nameBuf, entry->d_name, nameBufSize)\<close> and
  sets \<open>nameBuf[nameBufSize - 1] = 0\<close>, which is outside the buffer when \<open>nameBufSize\<close> is 0.
  The accumulator is \<open>result\<close> and \<open>nameBuf\<close> together: \<open>None\<close> while \<open>result\<close> is false.
\<close>

fun readdir_loop :: "string \<Rightarrow> byte \<Rightarrow> nat \<Rightarrow> dirent list \<Rightarrow> string option \<Rightarrow> error + string option" where
  "readdir_loop name objectTypes nameBufSize [] acc = Inr acc"
| "readdir_loop name objectTypes nameBufSize (entry # rest) acc =
     (if entry_matches name objectTypes entry
      then (if nameBufSize = 0 then Inl out_of_bounds
            else readdir_loop name objectTypes nameBufSize rest
                   (Some (take (nameBufSize - 1) (d_name entry))))
      else readdir_loop name objectTypes nameBufSize rest acc)"

text \<open>The mask \<open>(lookForFiles ? DT_REG : 0) | (lookForSubdirs ? DT_DIR : 0)\<close>.\<close>

definition objectTypes_of :: "bool \<Rightarrow> bool \<Rightarrow> byte" where
  "objectTypes_of lookForFiles lookForSubdirs =
     (if lookForFiles then DT_REG else 0) OR (if lookForSubdirs then DT_DIR else 0)"

text \<open>
  \<open>strstr(name, "/")\<close> points at the first \<open>/\<close>: \<open>splitter\<close> is the rest of \<open>name\<close> from
  there (empty when there is none) and \<open>dirNameLen\<close> the number of bytes before it.
\<close>

definition splitter_of :: "string \<Rightarrow> string" where
  "splitter_of name = dropWhile (\<lambda>c. c \<noteq> CHR ''/'') name"

definition dirNameLen_of :: "string \<Rightarrow> nat" where
  "dirNameLen_of name = length (takeWhile (\<lambda>c. c \<noteq> CHR ''/'') name)"

definition has_directory :: "string \<Rightarrow> bool" where
  "has_directory name \<longleftrightarrow>
     splitter_of name \<noteq> [] \<and> 0 < dirNameLen_of name \<and> tl (splitter_of name) \<noteq> []"

text \<open>
  \<open>findObjectCaseInsensitive(directory, name, lookForFiles, lookForSubdirs, nameBuf,
  nameBufSize)\<close>. The result is \<open>Some\<close> of the
  contents of \<open>nameBuf\<close> when the function returns true, with the calls made.
  The local buffers \<open>newDirectory\<close>, \<open>actualSubdirName\<close> and \<open>pathInSubdir\<close> have 128 bytes.
\<close>

function findObjectCaseInsensitive ::
  "world \<Rightarrow> string \<Rightarrow> string \<Rightarrow> bool \<Rightarrow> bool \<Rightarrow> nat
     \<Rightarrow> (error + string option) \<times> syscall list"
where
  "findObjectCaseInsensitive w directory name lookForFiles lookForSubdirs nameBufSize =
     (if has_directory name then
        (if 128 \<le> dirNameLen_of name then (Inl out_of_bounds, [])
         else
           (case findObjectCaseInsensitive w directory (take (dirNameLen_of name) name)
                   False True 128 of
              (Inl e, t1) \<Rightarrow> (Inl e, t1)
            | (Inr None, t1) \<Rightarrow> (Inr None, t1)
            | (Inr (Some actualSubdirName), t1) \<Rightarrow>
                (case joinPaths_buf directory actualSubdirName 128 of
                   Inl e \<Rightarrow> (Inl e, t1)
                 | Inr newDirectory \<Rightarrow>
                     (case findObjectCaseInsensitive w newDirectory (tl (splitter_of name))
                             lookForFiles lookForSubdirs 128 of
                        (Inl e, t2) \<Rightarrow> (Inl e, t1 @ t2)
                      | (Inr None, t2) \<Rightarrow> (Inr None, t1 @ t2)
                      | (Inr (Some pathInSubdir), t2) \<Rightarrow>
                          (case joinPaths_buf actualSubdirName pathInSubdir nameBufSize of
                             Inl e \<Rightarrow> (Inl e, t1 @ t2)
                           | Inr nameBuf \<Rightarrow> (Inr (Some nameBuf), t1 @ t2))))))
      else
        (let objectTypes = objectTypes_of lookForFiles lookForSubdirs
         in case opendir w directory of
              None \<Rightarrow> (Inr None, [Opendir directory])
            | Some entries \<Rightarrow>
                (readdir_loop name objectTypes nameBufSize entries None, [Opendir directory])))"
  by pat_completeness auto
termination
proof (relation "measure (\<lambda>(w, directory, name, lookForFiles, lookForSubdirs, nameBufSize). length name)")
  show "wf (measure (\<lambda>(w, directory, name, lookForFiles, lookForSubdirs, nameBufSize). length name))"
    by simp
next
  fix w :: world and directory name :: string
    and lookForFiles lookForSubdirs :: bool and nameBufSize :: nat
  assume "has_directory name"
  then have "dropWhile (\<lambda>c. c \<noteq> CHR ''/'') name \<noteq> []"
    by (simp add: has_directory_def splitter_of_def)
  moreover have "length (takeWhile (\<lambda>c. c \<noteq> CHR ''/'') name)
      + length (dropWhile (\<lambda>c. c \<noteq> CHR ''/'') name) = length name"
    by (simp only: length_append [symmetric] takeWhile_dropWhile_id)
  ultimately have "length (takeWhile (\<lambda>c. c \<noteq> CHR ''/'') name) < length name"
    by (cases "dropWhile (\<lambda>c. c \<noteq> CHR ''/'') name") auto
  then show "((w, directory, take (dirNameLen_of name) name, False, True, 128),
              (w, directory, name, lookForFiles, lookForSubdirs, nameBufSize))
        \<in> measure (\<lambda>(w, directory, name, lookForFiles, lookForSubdirs, nameBufSize). length name)"
    by (simp add: dirNameLen_of_def)
next
  fix w :: world and directory name :: string
    and lookForFiles lookForSubdirs :: bool and nameBufSize :: nat and newDirectory :: string
  assume "has_directory name"
  then have "splitter_of name \<noteq> []"
    by (simp add: has_directory_def)
  then have "length (tl (splitter_of name)) < length (splitter_of name)"
    by simp
  moreover have "length (splitter_of name) \<le> length name"
    unfolding splitter_of_def by (simp add: length_dropWhile_le)
  ultimately show "((w, newDirectory, tl (splitter_of name), lookForFiles, lookForSubdirs, 128),
              (w, directory, name, lookForFiles, lookForSubdirs, nameBufSize))
        \<in> measure (\<lambda>(w, directory, name, lookForFiles, lookForSubdirs, nameBufSize). length name)"
    by simp
qed

declare findObjectCaseInsensitive.simps [simp del]

section \<open>File handles\<close>

text \<open>
  \<open>struct SGPFile\<close>: the flag \<open>SGPFILE_REAL\<close> says that the union holds a \<open>FILE*\<close>, the flags
  value \<open>SGPFILE_NONE\<close> that it holds a \<open>LibraryFile\<close>.
\<close>

datatype SGPFile = SGPFILE_REAL FILE | SGPFILE_NONE LibraryFile

text \<open>
  \<open>FileRead(f, pDest, uiBytesToRead)\<close>: the exception thrown, if any, the bytes stored at
  \<open>pDest\<close> and the handle afterwards. The library is called with \<open>(UINT32)uiBytesToRead\<close>.
\<close>

definition FileRead :: "SGPFile \<Rightarrow> size_t \<Rightarrow> error option \<times> byte list \<times> SGPFile" where
  "FileRead f uiBytesToRead =
     (case f of
        SGPFILE_REAL file \<Rightarrow>
          (case fread (unat uiBytesToRead) 1 file of
             (items, pDest, file') \<Rightarrow>
               (if items = 1 then None else Some (runtime_error ''Reading from file failed''),
                pDest, SGPFILE_REAL file'))
      | SGPFILE_NONE lib \<Rightarrow>
          (case LoadDataFromLibrary lib (ucast uiBytesToRead :: UINT32) of
             (ret, pDest, lib') \<Rightarrow>
               (if ret then None else Some (runtime_error ''Reading from file failed''),
                pDest, SGPFILE_NONE lib')))"

text \<open>
  \<open>FileWrite(f, pDest, uiBytesToWrite)\<close>, \<open>pDest\<close> being the \<open>uiBytesToWrite\<close> bytes of the
  caller's buffer: the exception thrown, if any, and the handle afterwards.
  The \<open>fwrite\<close> of the C library is a parameter, since what it does depends on the mode
  and the buffering of the stream: \<open>fwrite ptr size nmemb stream\<close> is the number of items
  that it reports as written, with the stream afterwards.
\<close>

definition FileWrite ::
  "(byte list \<Rightarrow> nat \<Rightarrow> nat \<Rightarrow> FILE \<Rightarrow> nat \<times> FILE) \<Rightarrow> SGPFile \<Rightarrow> byte list
     \<Rightarrow> error option \<times> SGPFile" where
  "FileWrite fwrite f pDest =
     (case f of
        SGPFILE_NONE lib \<Rightarrow> (Some (logic_error ''Tried to write to library file''), f)
      | SGPFILE_REAL file \<Rightarrow>
          (case fwrite pDest (length pDest) 1 file of
             (items, file') \<Rightarrow>
               (if items \<noteq> 1 then Some (runtime_error ''Writing to file failed'') else None,
                SGPFILE_REAL file')))"

section \<open>Opening a file for reading\<close>

text \<open>\<open>enum FileOpenFlags\<close> and the access modes of \<open>fcntl.h\<close>.\<close>

definition FILE_ACCESS_READ :: UINT32 where
  "FILE_ACCESS_READ = push_bit 0 1"

definition FILE_ACCESS_WRITE :: UINT32 where
  "FILE_ACCESS_WRITE = push_bit 1 1"

definition FILE_ACCESS_READWRITE :: UINT32 where
  "FILE_ACCESS_READWRITE = FILE_ACCESS_READ OR FILE_ACCESS_WRITE"

definition FILE_ACCESS_APPEND :: UINT32 where
  "FILE_ACCESS_APPEND = push_bit 2 1"

definition O_RDONLY :: int where
  "O_RDONLY = 0"

definition O_WRONLY :: int where
  "O_WRONLY = 1"

definition O_RDWR :: int where
  "O_RDWR = 2"

definition O_APPEND :: int where
  "O_APPEND = 1024"

text \<open>
  \<open>GetFileOpenModes(flags, &posixMode)\<close> outside Windows: the mode for \<open>fopen\<close> and the
  mode for \<open>open\<close>, or \<open>None\<close> where the program calls \<open>abort()\<close>.
\<close>

definition GetFileOpenModes :: "UINT32 \<Rightarrow> (string \<times> int) option" where
  "GetFileOpenModes flags =
     (let posixMode = (0 :: int);
          selected = flags AND (FILE_ACCESS_READWRITE OR FILE_ACCESS_APPEND)
      in if selected = FILE_ACCESS_READ then Some (''rb'', posixMode OR O_RDONLY)
         else if selected = FILE_ACCESS_WRITE then Some (''wb'', posixMode OR O_WRONLY)
         else if selected = FILE_ACCESS_READWRITE then Some (''r+b'', posixMode OR O_RDWR)
         else if selected = FILE_ACCESS_APPEND then Some (''ab'', posixMode OR (O_WRONLY OR O_APPEND))
         else None)"

text \<open>The message \<open>"Opening file '%s' failed"\<close>, formatted into 128 bytes.\<close>

definition opening_failed :: "string \<Rightarrow> string" where
  "opening_failed filename =
     snprintf 128 (''Opening file '' @ [CHR 0x27] @ filename @ [CHR 0x27] @ '' failed'')"

text \<open>\<open>getSGPFileFromFD(fd, filename, fmode)\<close>.\<close>

definition getSGPFileFromFD :: "world \<Rightarrow> int \<Rightarrow> string \<Rightarrow> string \<Rightarrow> error + SGPFile" where
  "getSGPFileFromFD w fd filename fmode =
     (if fd < 0 then Inl (runtime_error (opening_failed filename))
      else
        (case fdopen w fd fmode of
           None \<Rightarrow> Inl (runtime_error (opening_failed filename))
         | Some f \<Rightarrow> Inr (SGPFILE_REAL f)))"

text \<open>The path \<open>"%s/%s"\<close> of a name in the data directory, formatted into 512 bytes.\<close>

definition data_dir_path :: "world \<Rightarrow> string \<Rightarrow> string" where
  "data_dir_path w filename = snprintf 512 (s_dataDir w @ ''/'' @ filename)"

text \<open>
  \<open>OpenFileInDataDirFD(filename, mode)\<close>: the descriptor, or the overrun of the lookup, with
  the calls made. The buffer \<open>newFileName\<close> has 128 bytes.
\<close>

definition OpenFileInDataDirFD :: "world \<Rightarrow> string \<Rightarrow> int \<Rightarrow> (error + int) \<times> syscall list" where
  "OpenFileInDataDirFD w filename mode =
     (let path = data_dir_path w filename;
          d = sys_open w path mode
      in if d < 0 \<and> CASE_SENSITIVE_FS w then
           (case findObjectCaseInsensitive w (s_dataDir w) filename True False 128 of
              (Inl e, t) \<Rightarrow> (Inl e, Open path # t)
            | (Inr None, t) \<Rightarrow> (Inr d, Open path # t)
            | (Inr (Some newFileName), t) \<Rightarrow>
                (Inr (sys_open w (data_dir_path w newFileName) mode),
                 Open path # t @ [Open (data_dir_path w newFileName)]))
         else (Inr d, [Open path]))"

text \<open>
  \<open>FileMan::openForReadingSmart(filename, useSmartLookup)\<close>: the handle or the exception,
  with the calls made. \<open>aborted\<close> is the \<open>abort()\<close> of \<open>GetFileOpenModes\<close>.
\<close>

definition openForReadingSmart :: "world \<Rightarrow> string \<Rightarrow> bool \<Rightarrow> (error + SGPFile) \<times> syscall list" where
  "openForReadingSmart w filename useSmartLookup =
     (case GetFileOpenModes FILE_ACCESS_READ of
        None \<Rightarrow> (Inl aborted, [])
      | Some (fmode, mode) \<Rightarrow>
          (let d = sys_open w filename mode
           in if d < 0 \<and> useSmartLookup then
                (case OpenFileInDataDirFD w filename mode of
                   (Inl e, t) \<Rightarrow> (Inl e, Open filename # t)
                 | (Inr d, t) \<Rightarrow>
                     (if d < 0 then
                        (case OpenFileFromLibrary w filename of
                           Some libFile \<Rightarrow>
                             (Inr (SGPFILE_NONE libFile),
                              Open filename # t @ [LibraryOpen filename])
                         | None \<Rightarrow>
                             (getSGPFileFromFD w d filename fmode,
                              Open filename # t @ [LibraryOpen filename]))
                      else (getSGPFileFromFD w d filename fmode, Open filename # t)))
              else (getSGPFileFromFD w d filename fmode, [Open filename])))"

section \<open>Erasing the contents of a directory\<close>

text \<open>
  \<open>unlink(path)\<close>: the error, if any, and the machine afterwards. A name that is not a
  directory is removed, a symbolic link to a directory too.
\<close>

definition unlink :: "world \<Rightarrow> string \<Rightarrow> errno option \<times> world" where
  "unlink w path =
     (case nodes w path of
        None \<Rightarrow> (Some ENOENT, w)
      | Some i \<Rightarrow>
          (if is_directory i then (Some EISDIR, w)
           else if unlink_refused i then (Some EACCES, w)
           else (None, w\<lparr>nodes := (nodes w)(path := None)\<rparr>)))"

text \<open>\<open>FileDelete(path)\<close> outside Windows: the exception thrown, if any, and the machine.\<close>

definition FileDelete :: "world \<Rightarrow> string \<Rightarrow> error option \<times> world" where
  "FileDelete w path =
     (case unlink w path of
        (None, w') \<Rightarrow> (None, w')
      | (Some e, w') \<Rightarrow>
          (if e = ENOENT then (None, w')
           else (Some (runtime_error ''Deleting file failed''), w')))"

text \<open>
  Modelled from the spec: the enumeration \<open>FileAttributes\<close> is declared in \<open>FileMan.h\<close>,
  which is not among the sources. The spec gives it as a set over IsDirectory and
  IsReadOnly, plus a distinguished Error value that differs from the empty set.
\<close>

datatype FileAttributes =
    FILE_ATTR_ERROR
  | FILE_ATTR (FILE_ATTR_DIRECTORY: bool) (FILE_ATTR_READONLY: bool)

text \<open>\<open>FileGetAttributes(filename)\<close> outside Windows.\<close>

definition FileGetAttributes :: "world \<Rightarrow> string \<Rightarrow> FileAttributes" where
  "FileGetAttributes w filename =
     (case nodes w filename of
        None \<Rightarrow> FILE_ATTR_ERROR
      | Some sb \<Rightarrow>
          (if stat_fails sb then FILE_ATTR_ERROR
           else FILE_ATTR (S_ISDIR sb) (\<not> S_IWUSR sb)))"

text \<open>
  \<open>SGP::FindFiles::Next()\<close> returns what follows the last separator of a matched path
  (\<open>strrchr\<close>), the whole path when it has none.
\<close>

definition FindFiles_Next :: "string \<Rightarrow> string" where
  "FindFiles_Next path = rev (takeWhile (\<lambda>c. c \<noteq> PATH_SEPARATOR) (rev path))"

text \<open>The path \<open>"%s/%s"\<close> that \<open>EraseDirectory\<close> deletes for a matched path.\<close>

definition erase_target :: "string \<Rightarrow> string \<Rightarrow> string" where
  "erase_target path matched = snprintf 512 (path @ ''/'' @ FindFiles_Next matched)"

text \<open>
  The loop of \<open>EraseDirectory\<close> over the matched paths: a failed \<open>FileDelete\<close> is caught, and
  thrown again unless the attributes say that the path is a directory.
\<close>

fun erase_loop :: "world \<Rightarrow> string \<Rightarrow> string list \<Rightarrow> error option \<times> world" where
  "erase_loop w path [] = (None, w)"
| "erase_loop w path (matched # rest) =
     (let filename = erase_target path matched
      in case FileDelete w filename of
           (None, w') \<Rightarrow> erase_loop w' path rest
         | (Some e, w') \<Rightarrow>
             (let attr = FileGetAttributes w' filename
              in if attr \<noteq> FILE_ATTR_ERROR \<and> FILE_ATTR_DIRECTORY attr
                 then erase_loop w' path rest
                 else (Some e, w')))"

text \<open>
  \<open>EraseDirectory(path)\<close>: the constructor of \<open>SGP::FindFiles\<close> throws when \<open>glob\<close> fails for a
  reason other than finding no match.
\<close>

definition EraseDirectory :: "world \<Rightarrow> string \<Rightarrow> error option \<times> world" where
  "EraseDirectory w path =
     (let pattern = snprintf 512 (path @ ''/*'')
      in case glob w pattern of
           None \<Rightarrow> (Some (runtime_error ''Failed to start file search''), w)
         | Some gl_pathv \<Rightarrow> erase_loop w path gl_pathv)"

section \<open>Example machines\<close>

text \<open>
  A machine with a data directory on a case-sensitive filesystem, used to run the functions
  above: the entries of the data directory differ in case from the names the game asks for,
  one file can be opened in a subdirectory, and the library holds one entry. The directory
  \<open>saves\<close> holds two files, a subdirectory with a file of its own and a symbolic link to
  that subdirectory; the directory \<open>locked\<close> holds a file that the system refuses to
  unlink, and another file. \<open>glob\<close> reads the brackets of \<open>sa[v]es/*\<close> as a set of
  characters and matches what lies in \<open>saves\<close>.
\<close>

definition example_machine :: world where
  "example_machine = \<lparr>
     s_dataDir = ''/ja2/data'',
     CASE_SENSITIVE_FS = True,
     sys_open = (\<lambda>path mode.
        if path = ''/ja2/data/BinaryData/x.dat'' \<or> path = ''/ja2/data/readme.txt'' \<or> path = ''local.txt''
        then 3 else - 1),
     fdopen = (\<lambda>fd fmode.
        if fd = 3
        then Some \<lparr>contents = [1, 2, 3], offset = 0, can_read = True, can_write = False, room = 0\<rparr>
        else None),
     opendir = (\<lambda>directory.
        if directory = ''/ja2/data'' then
          Some [\<lparr>d_type = DT_DIR, d_name = ''Maps''\<rparr>, \<lparr>d_type = DT_REG, d_name = ''maps''\<rparr>,
                \<lparr>d_type = DT_DIR, d_name = ''MAPS''\<rparr>, \<lparr>d_type = DT_DIR, d_name = ''BinaryData''\<rparr>,
                \<lparr>d_type = DT_REG, d_name = ''readme.txt''\<rparr>]
        else if directory = ''/ja2/data/BinaryData'' then
          Some [\<lparr>d_type = DT_REG, d_name = ''x.dat''\<rparr>]
        else None),
     OpenFileFromLibrary = (\<lambda>name.
        if name = ''INTERFACE/a.sti'' then Some \<lparr>entry_bytes = [7, 8], uiFilePosInFile = 0\<rparr>
        else None),
     glob = (\<lambda>pattern.
        if pattern = ''saves/*'' \<or> pattern = ''sa[v]es/*''
        then Some [''saves/b.txt'', ''saves/sub'', ''saves/latest'', ''saves/a.txt'']
        else if pattern = ''locked/*'' then Some [''locked/x'', ''locked/y'']
        else Some []),
     nodes = (\<lambda>path.
        if path = ''saves'' \<or> path = ''saves/sub'' \<or> path = ''locked''
        then Some \<lparr>is_directory = True, unlink_refused = False, stat_fails = False,
                    S_ISDIR = True, S_IWUSR = True\<rparr>
        else if path = ''saves/latest''
        then Some \<lparr>is_directory = False, unlink_refused = False, stat_fails = False,
                    S_ISDIR = True, S_IWUSR = True\<rparr>
        else if path = ''saves/a.txt'' \<or> path = ''saves/b.txt'' \<or> path = ''saves/sub/c.txt''
                \<or> path = ''locked/y''
        then Some \<lparr>is_directory = False, unlink_refused = False, stat_fails = False,
                    S_ISDIR = False, S_IWUSR = True\<rparr>
        else if path = ''locked/x''
        then Some \<lparr>is_directory = False, unlink_refused = True, stat_fails = False,
                    S_ISDIR = False, S_IWUSR = False\<rparr>
        else None)\<rparr>"

text \<open>
  The same machine with a library that holds an entry under every name.
\<close>

definition library_machine :: world where
  "library_machine =
     example_machine\<lparr>OpenFileFromLibrary :=
       (\<lambda>name. Some \<lparr>entry_bytes = [7, 8], uiFilePosInFile = 0\<rparr>)\<rparr>"

text \<open>
  Three streams that \<open>fwrite\<close> may be given. The first is unbuffered and writes at its
  position, as far as the device accepts bytes; \<open>store\<close> overwrites \<open>bs\<close> into \<open>cs\<close> at
  position \<open>off\<close>, a gap being filled with zeros. The second is opened for appending and
  writes at the end of the file, whatever its position. The third is buffered: the bytes
  stay in a buffer, which the record does not show, and every item is reported as written.
  Each returns zero and leaves the stream as it is when \<open>size\<close> or \<open>nmemb\<close> is zero
  (ISO C, 7.21.8.2).
\<close>

definition store :: "byte list \<Rightarrow> nat \<Rightarrow> byte list \<Rightarrow> byte list" where
  "store cs off bs = take off (cs @ replicate (off - length cs) 0) @ bs @ drop (off + length bs) cs"

definition unbuffered_fwrite :: "byte list \<Rightarrow> nat \<Rightarrow> nat \<Rightarrow> FILE \<Rightarrow> nat \<times> FILE" where
  "unbuffered_fwrite ptr sz nmemb stream =
     (if sz = 0 \<or> nmemb = 0 then (0, stream)
      else
        (let put = (if can_write stream then take (room stream) (take (sz * nmemb) ptr) else [])
         in (length put div sz,
             stream\<lparr>contents := store (contents stream) (offset stream) put,
                    offset := offset stream + length put,
                    room := room stream - length put\<rparr>)))"

definition append_fwrite :: "byte list \<Rightarrow> nat \<Rightarrow> nat \<Rightarrow> FILE \<Rightarrow> nat \<times> FILE" where
  "append_fwrite ptr sz nmemb stream =
     (if sz = 0 \<or> nmemb = 0 then (0, stream)
      else
        (let put = (if can_write stream then take (room stream) (take (sz * nmemb) ptr) else [])
         in (length put div sz,
             stream\<lparr>contents := contents stream @ put,
                    offset := length (contents stream) + length put,
                    room := room stream - length put\<rparr>)))"

definition buffered_fwrite :: "byte list \<Rightarrow> nat \<Rightarrow> nat \<Rightarrow> FILE \<Rightarrow> nat \<times> FILE" where
  "buffered_fwrite ptr sz nmemb stream = (if sz = 0 \<or> nmemb = 0 then (0, stream) else (nmemb, stream))"

section \<open>Properties of the path utilities\<close>

text \<open>
  C3 (as amended). The \<open>std::string\<close> overloads of \<open>joinPaths\<close> return \<open>a\<close> followed by \<open>b\<close>
  and insert one separator between them exactly when \<open>a\<close> is empty or does not end in a
  separator and \<open>b\<close> does not begin with one. No separator is ever removed: the junction has
  exactly one separator unless \<open>a\<close> ends in one and \<open>b\<close> begins with one, and then it has both.
\<close>

theorem joinPaths_junction:
  "joinPaths a b =
     (if (a \<noteq> [] \<and> last a = PATH_SEPARATOR) \<or> (b \<noteq> [] \<and> hd b = PATH_SEPARATOR)
      then a @ b else a @ PATH_SEPARATOR # b)"
  by (auto simp: joinPaths_def Let_def last_conv_nth)

theorem joinPaths_junction_witness:
  "joinPaths ''data'' ''maps'' = ''data/maps'' \<and> joinPaths ''data/'' ''maps'' = ''data/maps''
     \<and> joinPaths ''data'' ''/maps'' = ''data/maps''"
  using joinPaths_junction [of "''data''" "''maps''"] joinPaths_junction [of "''data/''" "''maps''"]
    joinPaths_junction [of "''data''" "''/maps''"]
  by (simp add: PATH_SEPARATOR_def)

text \<open>
  C3 as stated fails: when \<open>a\<close> ends in a separator and \<open>b\<close> begins with one, the result has
  two separators at the junction.
\<close>

theorem joinPaths_doubled_separator:
  "joinPaths ''a/'' ''/b'' = ''a//b''"
  by (simp add: joinPaths_def PATH_SEPARATOR_def)

text \<open>
  The overload that writes into a buffer succeeds exactly when \<open>first\<close> is not empty and
  the joined path and its NUL fit the buffer; it looks only at the end of \<open>first\<close>.
\<close>

lemma joinPaths_buf_fits:
  "joinPaths_buf first second outputBufSize = Inr r \<longleftrightarrow>
     first \<noteq> []
     \<and> r = first @ (if last first = PATH_SEPARATOR then [] else ''/'') @ second
     \<and> length r < outputBufSize"
  by (cases "length second \<le> outputBufSize")
    (auto simp: joinPaths_buf_def strncat_def last_conv_nth split: if_splits)

text \<open>
  C9. For every string \<open>b\<close> that does not begin with the path separator, \<open>joinPaths("", b)\<close>
  is the separator followed by \<open>b\<close>, not \<open>b\<close> itself.
\<close>

theorem joinPaths_empty_first:
  "b = [] \<or> hd b \<noteq> PATH_SEPARATOR \<Longrightarrow> joinPaths [] b = PATH_SEPARATOR # b"
  by (auto simp: joinPaths_def)

theorem joinPaths_empty_first_witness:
  "hd ''data'' \<noteq> PATH_SEPARATOR \<and> joinPaths [] ''data'' = ''/data'' \<and> joinPaths [] ''data'' \<noteq> ''data''"
  using joinPaths_empty_first [of "''data''"]
  by (simp add: PATH_SEPARATOR_def)

section \<open>Properties of the case-insensitive lookup\<close>

text \<open>
  On strings without a NUL byte, \<open>strcasecmp\<close> returns 0 exactly for strings that are equal
  after folding to lower case.
\<close>

lemma tolower_zero:
  "of_char (tolower c) = (0 :: nat) \<longleftrightarrow> of_char c = (0 :: nat)"
  by (auto simp: tolower_def)

lemma of_char_nat_inject:
  "(of_char x :: nat) = of_char y \<longleftrightarrow> x = y"
  by (metis char_of_char)

lemma strcasecmp_zero_iff:
  assumes "\<forall>c\<in>set a. of_char c \<noteq> (0 :: nat)" and "\<forall>c\<in>set b. of_char c \<noteq> (0 :: nat)"
  shows "strcasecmp a b = 0 \<longleftrightarrow> map tolower a = map tolower b"
  using assms
proof (induction a b rule: strcasecmp.induct)
  case 1
  then show ?case by simp
next
  case (2 y ys)
  then show ?case by (simp add: tolower_zero)
next
  case (3 x xs)
  then show ?case by (simp add: tolower_zero)
next
  case (4 x xs y ys)
  then show ?case
    by (auto simp: of_char_nat_inject)
qed

lemma readdir_loop_last_match:
  "0 < nameBufSize \<Longrightarrow>
   readdir_loop name objectTypes nameBufSize entries acc =
     Inr (if filter (entry_matches name objectTypes) entries = [] then acc
          else Some (take (nameBufSize - 1)
                 (d_name (last (filter (entry_matches name objectTypes) entries)))))"
  by (induction entries arbitrary: acc) simp_all

lemma no_separator_no_directory:
  "CHR ''/'' \<notin> set name \<Longrightarrow> \<not> has_directory name"
  by (simp add: has_directory_def splitter_of_def dropWhile_eq_Nil_conv)

lemma type_mask_flags:
  "(d_type entry AND objectTypes_of lookForFiles lookForSubdirs) \<noteq> 0 \<longleftrightarrow>
     (lookForFiles \<and> (d_type entry AND 8) \<noteq> 0) \<or> (lookForSubdirs \<and> (d_type entry AND 4) \<noteq> 0)"
  by (simp add: objectTypes_of_def DT_REG_def DT_DIR_def bit.conj_disj_distrib or_eq_0_iff)

lemma entry_matches_flags:
  "entry_matches name (objectTypes_of lookForFiles lookForSubdirs) =
     (\<lambda>entry. ((lookForFiles \<and> (d_type entry AND 8) \<noteq> 0) \<or> (lookForSubdirs \<and> (d_type entry AND 4) \<noteq> 0))
               \<and> strcasecmp name (d_name entry) = 0)"
  by (rule ext) (simp only: entry_matches_def type_mask_flags)

lemma char_of_lower:
  "char_of (97 :: nat) = CHR ''a''" "char_of (98 :: nat) = CHR ''b''" "char_of (99 :: nat) = CHR ''c''"
  "char_of (100 :: nat) = CHR ''d''" "char_of (101 :: nat) = CHR ''e''" "char_of (102 :: nat) = CHR ''f''"
  "char_of (103 :: nat) = CHR ''g''" "char_of (104 :: nat) = CHR ''h''" "char_of (105 :: nat) = CHR ''i''"
  "char_of (106 :: nat) = CHR ''j''" "char_of (107 :: nat) = CHR ''k''" "char_of (108 :: nat) = CHR ''l''"
  "char_of (109 :: nat) = CHR ''m''" "char_of (110 :: nat) = CHR ''n''" "char_of (111 :: nat) = CHR ''o''"
  "char_of (112 :: nat) = CHR ''p''" "char_of (113 :: nat) = CHR ''q''" "char_of (114 :: nat) = CHR ''r''"
  "char_of (115 :: nat) = CHR ''s''" "char_of (116 :: nat) = CHR ''t''" "char_of (117 :: nat) = CHR ''u''"
  "char_of (118 :: nat) = CHR ''v''" "char_of (119 :: nat) = CHR ''w''" "char_of (120 :: nat) = CHR ''x''"
  "char_of (121 :: nat) = CHR ''y''" "char_of (122 :: nat) = CHR ''z''"
  by code_simp+

text \<open>
  C4. When \<open>findObjectCaseInsensitive\<close> scans a directory for a name without an embedded
  separator, the result is decided by all the entries that \<open>readdir\<close> returns, in its order.
  An entry matches when its type passes the mask of the caller's flags (bit 8, the bit of
  a regular file, when files are looked for; bit 4, the bit of a directory, when
  subdirectories are looked for) and its name is equal to the requested name without regard
  to case. The last entry that matches is the one returned: its name, copied into the
  caller's buffer of \<open>nameBufSize\<close> bytes, hence the whole name when it is shorter than the
  buffer. Nothing is found when no entry matches.
\<close>

theorem scan_last_match_wins:
  assumes "\<not> has_directory name"
    and "opendir w directory = Some entries"
    and "0 < nameBufSize"
  shows "let matching = filter (\<lambda>entry.
               ((lookForFiles \<and> (d_type entry AND 8) \<noteq> 0)
                  \<or> (lookForSubdirs \<and> (d_type entry AND 4) \<noteq> 0))
               \<and> strcasecmp name (d_name entry) = 0) entries
         in findObjectCaseInsensitive w directory name lookForFiles lookForSubdirs nameBufSize =
              (Inr (if matching = [] then None
                    else Some (take (nameBufSize - 1) (d_name (last matching)))),
               [Opendir directory])
            \<and> (matching \<noteq> [] \<and> length (d_name (last matching)) < nameBufSize \<longrightarrow>
                 fst (findObjectCaseInsensitive w directory name lookForFiles lookForSubdirs
                        nameBufSize) = Inr (Some (d_name (last matching))))"
  using assms
  by (auto simp: findObjectCaseInsensitive.simps [of w directory name] readdir_loop_last_match
      entry_matches_flags Let_def)

theorem scan_last_match_wins_witness:
  "\<not> has_directory ''maps''
   \<and> opendir example_machine ''/ja2/data'' =
       Some [\<lparr>d_type = DT_DIR, d_name = ''Maps''\<rparr>, \<lparr>d_type = DT_REG, d_name = ''maps''\<rparr>,
             \<lparr>d_type = DT_DIR, d_name = ''MAPS''\<rparr>, \<lparr>d_type = DT_DIR, d_name = ''BinaryData''\<rparr>,
             \<lparr>d_type = DT_REG, d_name = ''readme.txt''\<rparr>]
   \<and> findObjectCaseInsensitive example_machine ''/ja2/data'' ''maps'' False True 128 =
       (Inr (Some ''MAPS''), [Opendir ''/ja2/data''])
   \<and> findObjectCaseInsensitive example_machine ''/ja2/data'' ''maps'' True False 128 =
       (Inr (Some ''maps''), [Opendir ''/ja2/data''])
   \<and> findObjectCaseInsensitive example_machine ''/ja2/data'' ''maps'' True True 128 =
       (Inr (Some ''MAPS''), [Opendir ''/ja2/data''])
   \<and> findObjectCaseInsensitive example_machine ''/ja2/data'' ''maps'' False False 128 =
       (Inr None, [Opendir ''/ja2/data''])
   \<and> findObjectCaseInsensitive example_machine ''/ja2/data'' ''README.TXT'' True False 128 =
       (Inr (Some ''readme.txt''), [Opendir ''/ja2/data''])
   \<and> findObjectCaseInsensitive example_machine ''/ja2/data'' ''README.TXT'' False True 128 =
       (Inr None, [Opendir ''/ja2/data''])
   \<and> findObjectCaseInsensitive example_machine ''/ja2/data'' ''maps'' False True 3 =
       (Inr (Some ''MA''), [Opendir ''/ja2/data''])"
proof -
  let ?entries = "[\<lparr>d_type = DT_DIR, d_name = ''Maps''\<rparr>, \<lparr>d_type = DT_REG, d_name = ''maps''\<rparr>,
             \<lparr>d_type = DT_DIR, d_name = ''MAPS''\<rparr>, \<lparr>d_type = DT_DIR, d_name = ''BinaryData''\<rparr>,
             \<lparr>d_type = DT_REG, d_name = ''readme.txt''\<rparr>]"
  have maps: "\<not> has_directory ''maps''" and readme: "\<not> has_directory ''README.TXT''"
    by (simp_all add: has_directory_def splitter_of_def)
  have dir: "opendir example_machine ''/ja2/data'' = Some ?entries"
    by (simp add: example_machine_def)
  have size: "(0 :: nat) < 128" and small: "(0 :: nat) < 3"
    by simp_all
  note eval = DT_REG_def DT_DIR_def tolower_def char_of_lower Let_def
  have dirs: "findObjectCaseInsensitive example_machine ''/ja2/data'' ''maps'' False True 128 =
       (Inr (Some ''MAPS''), [Opendir ''/ja2/data''])"
    using scan_last_match_wins [OF maps dir size, of False True] by (simp add: eval)
  have files: "findObjectCaseInsensitive example_machine ''/ja2/data'' ''maps'' True False 128 =
       (Inr (Some ''maps''), [Opendir ''/ja2/data''])"
    using scan_last_match_wins [OF maps dir size, of True False] by (simp add: eval)
  have both: "findObjectCaseInsensitive example_machine ''/ja2/data'' ''maps'' True True 128 =
       (Inr (Some ''MAPS''), [Opendir ''/ja2/data''])"
    using scan_last_match_wins [OF maps dir size, of True True] by (simp add: eval)
  have none: "findObjectCaseInsensitive example_machine ''/ja2/data'' ''maps'' False False 128 =
       (Inr None, [Opendir ''/ja2/data''])"
    using scan_last_match_wins [OF maps dir size, of False False] by (simp add: eval)
  have regular: "findObjectCaseInsensitive example_machine ''/ja2/data'' ''README.TXT'' True False 128 =
       (Inr (Some ''readme.txt''), [Opendir ''/ja2/data''])"
    using scan_last_match_wins [OF readme dir size, of True False] by (simp add: eval)
  have no_dir: "findObjectCaseInsensitive example_machine ''/ja2/data'' ''README.TXT'' False True 128 =
       (Inr None, [Opendir ''/ja2/data''])"
    using scan_last_match_wins [OF readme dir size, of False True] by (simp add: eval)
  have cut: "findObjectCaseInsensitive example_machine ''/ja2/data'' ''maps'' False True 3 =
       (Inr (Some ''MA''), [Opendir ''/ja2/data''])"
    using scan_last_match_wins [OF maps dir small, of False True] by (simp add: eval)
  show ?thesis
    using maps dir dirs files both none regular no_dir cut by (intro conjI)
qed

lemma takeWhile_no_separator:
  "CHR ''/'' \<notin> set (takeWhile (\<lambda>c. c \<noteq> CHR ''/'') name)"
  by (induction name) auto

lemma directory_name_no_directory:
  "\<not> has_directory (take (dirNameLen_of name) name)"
proof -
  have "take (dirNameLen_of name) name = takeWhile (\<lambda>c. c \<noteq> CHR ''/'') name"
    by (simp add: dirNameLen_of_def takeWhile_eq_take [symmetric])
  then show ?thesis
    by (simp add: no_separator_no_directory takeWhile_no_separator)
qed

text \<open>
  A directory that cannot be opened is reported as not found, as long as the part of the
  name before its first separator fits the 128 bytes of \<open>newDirectory\<close>.
\<close>

lemma unopened_directory_not_found:
  assumes "opendir w directory = None"
    and "dirNameLen_of name < 128"
  shows "findObjectCaseInsensitive w directory name lookForFiles lookForSubdirs nameBufSize =
           (Inr None, [Opendir directory])"
proof -
  have scan: "findObjectCaseInsensitive w directory n f d b = (Inr None, [Opendir directory])"
    if "\<not> has_directory n" for n f d b
    using that assms(1) by (simp add: findObjectCaseInsensitive.simps [of w directory n])
  show ?thesis
  proof (cases "has_directory name")
    case True
    then show ?thesis
      using assms(2) scan [OF directory_name_no_directory, of name False True 128]
      by (simp add: findObjectCaseInsensitive.simps [of w directory name])
  next
    case False
    then show ?thesis
      by (rule scan)
  qed
qed

text \<open>
  With a directory in the name, the part before the first separator is looked up first, as
  a subdirectory only; the rest is looked up in the directory found, with the caller's
  flags, only when that succeeds, and the two names found are joined. All of it holds as
  long as the strings fit their buffers.
\<close>

lemma directory_looked_up_first:
  assumes "has_directory name"
    and "dirNameLen_of name < 128"
  shows "findObjectCaseInsensitive w directory name lookForFiles lookForSubdirs nameBufSize =
           (case findObjectCaseInsensitive w directory (take (dirNameLen_of name) name) False True 128 of
              (Inl e, t1) \<Rightarrow> (Inl e, t1)
            | (Inr None, t1) \<Rightarrow> (Inr None, t1)
            | (Inr (Some actualSubdirName), t1) \<Rightarrow>
                (case joinPaths_buf directory actualSubdirName 128 of
                   Inl e \<Rightarrow> (Inl e, t1)
                 | Inr newDirectory \<Rightarrow>
                     (case findObjectCaseInsensitive w newDirectory (tl (splitter_of name))
                             lookForFiles lookForSubdirs 128 of
                        (Inl e, t2) \<Rightarrow> (Inl e, t1 @ t2)
                      | (Inr None, t2) \<Rightarrow> (Inr None, t1 @ t2)
                      | (Inr (Some pathInSubdir), t2) \<Rightarrow>
                          (case joinPaths_buf actualSubdirName pathInSubdir nameBufSize of
                             Inl e \<Rightarrow> (Inl e, t1 @ t2)
                           | Inr nameBuf \<Rightarrow> (Inr (Some nameBuf), t1 @ t2)))))"
  using assms by (simp add: findObjectCaseInsensitive.simps [of w directory name])

text \<open>
  The buffer \<open>newDirectory\<close> is also overrun by a directory that is found: with a data
  directory whose path has 124 bytes, the subdirectory \<open>Maps\<close> and the separator do not
  fit the 128 bytes into which \<open>joinPaths\<close> writes them.
\<close>

lemma long_data_directory_overruns:
  assumes "opendir w directory = Some [\<lparr>d_type = DT_DIR, d_name = ''Maps''\<rparr>]"
    and "length directory = 124"
  shows "findObjectCaseInsensitive w directory ''maps/a.dat'' True False 128 =
           (Inl out_of_bounds, [Opendir directory])"
proof -
  have scan: "findObjectCaseInsensitive w directory ''maps'' False True 128 =
      (Inr (Some ''Maps''), [Opendir directory])"
    using assms(1)
    by (simp add: findObjectCaseInsensitive.simps [of w directory "''maps''"] has_directory_def
        splitter_of_def objectTypes_of_def entry_matches_def DT_DIR_def tolower_def)
  have "directory \<noteq> []"
    using assms(2) by auto
  then have "joinPaths_buf directory ''Maps'' 128 = Inl out_of_bounds"
    using assms(2) by (simp add: joinPaths_buf_def strncat_def)
  with scan show ?thesis
    by (simp add: findObjectCaseInsensitive.simps [of w directory "''maps/a.dat''"] has_directory_def
        splitter_of_def dirNameLen_of_def)
qed

text \<open>
  C5 holds on the code only while the strings fit the 128-byte buffers. A name whose part
  before the first separator has 128 bytes makes \<open>newDirectory[dirNameLen] = 0\<close> write
  behind the buffer \<open>newDirectory\<close>, whatever the directory holds and whether or not it can
  be opened.
\<close>

theorem long_directory_name_overruns:
  "findObjectCaseInsensitive w directory (replicate 128 CHR ''a'' @ ''/x'')
     lookForFiles lookForSubdirs nameBufSize = (Inl out_of_bounds, [])"
proof -
  have "takeWhile (\<lambda>c. c \<noteq> CHR ''/'') (replicate 128 CHR ''a'' @ ''/x'') = replicate 128 CHR ''a''"
    by (simp add: takeWhile_append)
  moreover have "dropWhile (\<lambda>c. c \<noteq> CHR ''/'') (replicate 128 CHR ''a'' @ ''/x'') = ''/x''"
    by (simp add: dropWhile_append)
  ultimately show ?thesis
    by (simp add: findObjectCaseInsensitive.simps [of w directory "replicate 128 CHR ''a'' @ ''/x''"]
        has_directory_def splitter_of_def dirNameLen_of_def)
qed

theorem long_directory_name_overruns_witness:
  "opendir example_machine ''/nowhere'' = None
   \<and> findObjectCaseInsensitive example_machine ''/nowhere'' (replicate 128 CHR ''a'' @ ''/x'')
       True False 128 = (Inl out_of_bounds, [])"
  using long_directory_name_overruns [of example_machine "''/nowhere''" True False 128]
  by (simp add: example_machine_def)

section \<open>Properties of opening a file for reading\<close>

lemma GetFileOpenModes_READ:
  "GetFileOpenModes FILE_ACCESS_READ = Some (''rb'', O_RDONLY)"
  by (simp add: GetFileOpenModes_def FILE_ACCESS_READ_def FILE_ACCESS_READWRITE_def
      FILE_ACCESS_WRITE_def FILE_ACCESS_APPEND_def O_RDONLY_def)

lemma getSGPFileFromFD_real:
  "getSGPFileFromFD w fd filename fmode = Inr h \<Longrightarrow>
   0 \<le> fd \<and> (\<exists>f. fdopen w fd fmode = Some f \<and> h = SGPFILE_REAL f)"
  by (auto simp: getSGPFileFromFD_def split: if_splits option.splits)

lemma data_dir_path_join:
  assumes "s_dataDir w \<noteq> []" and "last (s_dataDir w) \<noteq> PATH_SEPARATOR"
    and "filename = [] \<or> hd filename \<noteq> PATH_SEPARATOR"
    and "length (s_dataDir w) + length filename < 511"
  shows "data_dir_path w filename = joinPaths (s_dataDir w) filename"
  using assms
  by (auto simp: data_dir_path_def snprintf_def joinPaths_def last_conv_nth PATH_SEPARATOR_def)

text \<open>
  The lookup calls nothing but \<open>opendir\<close>. Of the calls that \<open>OpenFileInDataDirFD\<close> and
  \<open>openForReadingSmart\<close> make, every \<open>open\<close> before the last call has failed; a handle of a
  real file comes from the last call, an \<open>open\<close> that succeeded, and a handle of a library
  entry from the last call, the library's, after every \<open>open\<close> has failed.
\<close>

lemma lookup_calls_opendir:
  "c \<in> set (snd (findObjectCaseInsensitive w directory name lookForFiles lookForSubdirs nameBufSize))
   \<Longrightarrow> \<exists>p. c = Opendir p"
proof (induction w directory name lookForFiles lookForSubdirs nameBufSize
    rule: findObjectCaseInsensitive.induct)
  case (1 w directory name lookForFiles lookForSubdirs nameBufSize)
  show ?case
  proof (cases "has_directory name \<and> \<not> 128 \<le> dirNameLen_of name")
    case False
    with "1.prems" show ?thesis
      by (auto simp: findObjectCaseInsensitive.simps [of w directory name] Let_def
          split: if_splits option.splits)
  next
    case True
    obtain r1 t1 where first:
      "findObjectCaseInsensitive w directory (take (dirNameLen_of name) name) False True 128 = (r1, t1)"
      by (cases "findObjectCaseInsensitive w directory (take (dirNameLen_of name) name) False True 128")
    have t1: "\<exists>p. c = Opendir p" if "c \<in> set t1"
      using "1.IH"(1) True first that by simp
    show ?thesis
    proof (cases r1)
      case (Inl e)
      with "1.prems" True first t1 show ?thesis
        by (simp add: findObjectCaseInsensitive.simps [of w directory name])
    next
      case (Inr found)
      show ?thesis
      proof (cases found)
        case None
        with "1.prems" True first t1 Inr show ?thesis
          by (simp add: findObjectCaseInsensitive.simps [of w directory name])
      next
        case (Some actualSubdirName)
        show ?thesis
        proof (cases "joinPaths_buf directory actualSubdirName 128")
          case (Inl e)
          with "1.prems" True first t1 Inr Some show ?thesis
            by (simp add: findObjectCaseInsensitive.simps [of w directory name])
        next
          case joined: (Inr newDirectory)
          obtain r2 t2 where second:
            "findObjectCaseInsensitive w newDirectory (tl (splitter_of name))
               lookForFiles lookForSubdirs 128 = (r2, t2)"
            by (cases "findObjectCaseInsensitive w newDirectory (tl (splitter_of name))
               lookForFiles lookForSubdirs 128")
          have t2: "\<exists>p. c = Opendir p" if "c \<in> set t2"
            using "1.IH"(2) [of r1 t1 found actualSubdirName newDirectory]
              True first Inr Some joined second that
            by simp
          have "set (snd (findObjectCaseInsensitive w directory name lookForFiles lookForSubdirs
              nameBufSize)) \<subseteq> set t1 \<union> set t2"
            using True first Inr Some joined second
            by (auto simp: findObjectCaseInsensitive.simps [of w directory name]
                split: sum.splits option.splits)
          with "1.prems" t1 t2 show ?thesis
            by blast
        qed
      qed
    qed
  qed
qed

lemma OpenFileInDataDirFD_trace:
  assumes "OpenFileInDataDirFD w filename mode = (r, t)"
  shows "t \<noteq> []"
    and "\<forall>p. Open p \<in> set (butlast t) \<longrightarrow> sys_open w p mode < 0"
    and "\<forall>d. r = Inr d \<and> 0 \<le> d \<longrightarrow> (\<exists>p. last t = Open p \<and> sys_open w p mode = d)"
    and "\<forall>d. r = Inr d \<and> d < 0 \<longrightarrow> (\<forall>p. Open p \<in> set t \<longrightarrow> sys_open w p mode < 0)"
    and "\<forall>c\<in>set t. c \<noteq> LibraryOpen q"
proof -
  let ?path = "data_dir_path w filename"
  obtain r1 t1 where lookup:
    "findObjectCaseInsensitive w (s_dataDir w) filename True False 128 = (r1, t1)"
    by (cases "findObjectCaseInsensitive w (s_dataDir w) filename True False 128")
  have dirs: "\<And>c. c \<in> set t1 \<Longrightarrow> \<exists>p. c = Opendir p"
    using lookup_calls_opendir [of _ w "s_dataDir w" filename True False 128] lookup by simp
  then have no_open: "\<And>p. Open p \<notin> set t1" and no_lib: "\<And>q. LibraryOpen q \<notin> set t1"
    by blast+
  have cases: "(t = [Open ?path] \<and> r = Inr (sys_open w ?path mode)
                  \<and> (0 \<le> sys_open w ?path mode \<or> \<not> CASE_SENSITIVE_FS w))
      \<or> (t = Open ?path # t1 \<and> sys_open w ?path mode < 0
           \<and> (r = Inr (sys_open w ?path mode) \<or> (\<exists>e. r = Inl e)))
      \<or> (\<exists>n. t = Open ?path # t1 @ [Open (data_dir_path w n)] \<and> sys_open w ?path mode < 0
           \<and> r = Inr (sys_open w (data_dir_path w n) mode))"
    using assms lookup
    by (auto simp: OpenFileInDataDirFD_def Let_def split: if_splits sum.splits option.splits)
  show "t \<noteq> []"
    using cases by auto
  show "\<forall>p. Open p \<in> set (butlast t) \<longrightarrow> sys_open w p mode < 0"
    using cases no_open by (auto simp: butlast_append dest: in_set_butlastD)
  show "\<forall>d. r = Inr d \<and> 0 \<le> d \<longrightarrow> (\<exists>p. last t = Open p \<and> sys_open w p mode = d)"
    using cases by auto
  show "\<forall>d. r = Inr d \<and> d < 0 \<longrightarrow> (\<forall>p. Open p \<in> set t \<longrightarrow> sys_open w p mode < 0)"
    using cases no_open by auto
  show "\<forall>c\<in>set t. c \<noteq> LibraryOpen q"
    using cases no_lib by auto
qed


lemma openForReadingSmart_trace:
  assumes "openForReadingSmart w filename useSmartLookup = (r, calls)"
  shows "(\<forall>p. Open p \<in> set (butlast calls) \<longrightarrow> sys_open w p O_RDONLY < 0)
    \<and> (\<forall>f. r = Inr (SGPFILE_REAL f) \<longrightarrow>
          (\<exists>p. last calls = Open p \<and> 0 \<le> sys_open w p O_RDONLY))
    \<and> (\<forall>libFile. r = Inr (SGPFILE_NONE libFile) \<longrightarrow>
          last calls = LibraryOpen filename \<and> OpenFileFromLibrary w filename = Some libFile
          \<and> (\<forall>p. Open p \<in> set calls \<longrightarrow> sys_open w p O_RDONLY < 0))"
proof (cases "sys_open w filename O_RDONLY < 0 \<and> useSmartLookup")
  case False
  with assms have "calls = [Open filename]"
    and "r = getSGPFileFromFD w (sys_open w filename O_RDONLY) filename ''rb''"
    by (auto simp: openForReadingSmart_def GetFileOpenModes_READ Let_def)
  then show ?thesis
    by (auto simp: getSGPFileFromFD_def split: if_splits option.splits)
next
  case True
  obtain r1 t1 where data: "OpenFileInDataDirFD w filename O_RDONLY = (r1, t1)"
    by (cases "OpenFileInDataDirFD w filename O_RDONLY")
  note t1 = OpenFileInDataDirFD_trace [OF data]
  show ?thesis
  proof (cases r1)
    case (Inl e)
    with assms True data have "calls = Open filename # t1" "r = Inl e"
      by (auto simp: openForReadingSmart_def GetFileOpenModes_READ Let_def)
    with True t1(1,2) show ?thesis
      by (auto simp: butlast_append)
  next
    case (Inr d)
    show ?thesis
    proof (cases "d < 0")
      case False
      with assms True data Inr have "calls = Open filename # t1"
        "r = getSGPFileFromFD w d filename ''rb''"
        by (auto simp: openForReadingSmart_def GetFileOpenModes_READ Let_def)
      with True False Inr t1(1,2,3) show ?thesis
        by (auto simp: getSGPFileFromFD_def split: if_splits option.splits)
    next
      case neg: True
      with assms True data Inr have calls: "calls = Open filename # t1 @ [LibraryOpen filename]"
        and r: "r = (case OpenFileFromLibrary w filename of
                       Some libFile \<Rightarrow> Inr (SGPFILE_NONE libFile)
                     | None \<Rightarrow> getSGPFileFromFD w d filename ''rb'')"
        by (auto simp: openForReadingSmart_def GetFileOpenModes_READ Let_def split: option.splits)
      have "butlast calls = Open filename # t1"
        using calls by (simp add: butlast_append)
      with True neg Inr t1(4) calls r show ?thesis
        by (auto simp: getSGPFileFromFD_def split: option.splits)
    qed
  qed
qed

text \<open>
  The order of the sources while the lookup stays within its buffers, that is where
  \<open>OpenFileInDataDirFD\<close> returns a descriptor. With smart lookup, \<open>openForReadingSmart\<close> tries
  the name as it is, then the path \<open>"%s/%s"\<close> of the name in the data directory, cut to 511
  bytes (one more \<open>open\<close> with the name found by the case-insensitive lookup on a
  case-sensitive filesystem), then the library, and stops at the first that succeeds: the
  calls made end with the successful one. A handle made from a descriptor is tagged
  \<open>SGPFILE_REAL\<close>, the handle of a library entry \<open>SGPFILE_NONE\<close>. Without smart lookup, or
  when the name as it is can be opened, nothing else is tried. The path in the data
  directory is the one \<open>joinPaths\<close> gives only for a name that does not begin with a
  separator and fits the 512 bytes of the buffer. Every \<open>open\<close> before the last call made
  has failed, and the handle returned comes from the last call.
\<close>

lemma openForReadingSmart_order:
  "(0 \<le> sys_open w filename O_RDONLY \<or> \<not> useSmartLookup \<longrightarrow>
      openForReadingSmart w filename useSmartLookup =
        (getSGPFileFromFD w (sys_open w filename O_RDONLY) filename ''rb'', [Open filename]))
   \<and> (sys_open w filename O_RDONLY < 0 \<and> OpenFileInDataDirFD w filename O_RDONLY = (Inr d, t) \<and> 0 \<le> d \<longrightarrow>
      openForReadingSmart w filename True =
        (getSGPFileFromFD w d filename ''rb'', Open filename # t))
   \<and> (sys_open w filename O_RDONLY < 0 \<and> OpenFileInDataDirFD w filename O_RDONLY = (Inr d, t) \<and> d < 0
        \<and> OpenFileFromLibrary w filename = Some libFile \<longrightarrow>
      openForReadingSmart w filename True =
        (Inr (SGPFILE_NONE libFile), Open filename # t @ [LibraryOpen filename]))
   \<and> (0 \<le> sys_open w (data_dir_path w filename) mode \<or> \<not> CASE_SENSITIVE_FS w \<longrightarrow>
      OpenFileInDataDirFD w filename mode =
        (Inr (sys_open w (data_dir_path w filename) mode), [Open (data_dir_path w filename)]))
   \<and> (sys_open w (data_dir_path w filename) mode < 0 \<and> CASE_SENSITIVE_FS w
        \<and> findObjectCaseInsensitive w (s_dataDir w) filename True False 128 = (Inr None, t') \<longrightarrow>
      OpenFileInDataDirFD w filename mode =
        (Inr (sys_open w (data_dir_path w filename) mode), Open (data_dir_path w filename) # t'))
   \<and> (sys_open w (data_dir_path w filename) mode < 0 \<and> CASE_SENSITIVE_FS w
        \<and> findObjectCaseInsensitive w (s_dataDir w) filename True False 128 = (Inr (Some newFileName), t') \<longrightarrow>
      OpenFileInDataDirFD w filename mode =
        (Inr (sys_open w (data_dir_path w newFileName) mode),
         Open (data_dir_path w filename) # t' @ [Open (data_dir_path w newFileName)]))
   \<and> (getSGPFileFromFD w fd filename fmode = Inr h \<longrightarrow>
        0 \<le> fd \<and> (\<exists>f. fdopen w fd fmode = Some f \<and> h = SGPFILE_REAL f))
   \<and> (s_dataDir w \<noteq> [] \<and> last (s_dataDir w) \<noteq> PATH_SEPARATOR
        \<and> (filename = [] \<or> hd filename \<noteq> PATH_SEPARATOR)
        \<and> length (s_dataDir w) + length filename < 511 \<longrightarrow>
      data_dir_path w filename = joinPaths (s_dataDir w) filename)
   \<and> (openForReadingSmart w filename useSmartLookup = (r, calls) \<longrightarrow>
        (\<forall>p. Open p \<in> set (butlast calls) \<longrightarrow> sys_open w p O_RDONLY < 0)
        \<and> (\<forall>f. r = Inr (SGPFILE_REAL f) \<longrightarrow>
              (\<exists>p. last calls = Open p \<and> 0 \<le> sys_open w p O_RDONLY))
        \<and> (\<forall>libFile. r = Inr (SGPFILE_NONE libFile) \<longrightarrow>
              last calls = LibraryOpen filename \<and> OpenFileFromLibrary w filename = Some libFile
              \<and> (\<forall>p. Open p \<in> set calls \<longrightarrow> sys_open w p O_RDONLY < 0)))"
proof (intro conjI impI)
  assume "0 \<le> sys_open w filename O_RDONLY \<or> \<not> useSmartLookup"
  then show "openForReadingSmart w filename useSmartLookup =
        (getSGPFileFromFD w (sys_open w filename O_RDONLY) filename ''rb'', [Open filename])"
    by (auto simp: openForReadingSmart_def GetFileOpenModes_READ Let_def)
next
  assume "sys_open w filename O_RDONLY < 0 \<and> OpenFileInDataDirFD w filename O_RDONLY = (Inr d, t) \<and> 0 \<le> d"
  then show "openForReadingSmart w filename True =
        (getSGPFileFromFD w d filename ''rb'', Open filename # t)"
    by (simp add: openForReadingSmart_def GetFileOpenModes_READ Let_def)
next
  assume "sys_open w filename O_RDONLY < 0 \<and> OpenFileInDataDirFD w filename O_RDONLY = (Inr d, t) \<and> d < 0
        \<and> OpenFileFromLibrary w filename = Some libFile"
  then show "openForReadingSmart w filename True =
        (Inr (SGPFILE_NONE libFile), Open filename # t @ [LibraryOpen filename])"
    by (simp add: openForReadingSmart_def GetFileOpenModes_READ Let_def)
next
  assume "0 \<le> sys_open w (data_dir_path w filename) mode \<or> \<not> CASE_SENSITIVE_FS w"
  then show "OpenFileInDataDirFD w filename mode =
        (Inr (sys_open w (data_dir_path w filename) mode), [Open (data_dir_path w filename)])"
    by (auto simp: OpenFileInDataDirFD_def Let_def)
next
  assume "sys_open w (data_dir_path w filename) mode < 0 \<and> CASE_SENSITIVE_FS w
        \<and> findObjectCaseInsensitive w (s_dataDir w) filename True False 128 = (Inr None, t')"
  then show "OpenFileInDataDirFD w filename mode =
        (Inr (sys_open w (data_dir_path w filename) mode), Open (data_dir_path w filename) # t')"
    by (simp add: OpenFileInDataDirFD_def Let_def)
next
  assume "sys_open w (data_dir_path w filename) mode < 0 \<and> CASE_SENSITIVE_FS w
        \<and> findObjectCaseInsensitive w (s_dataDir w) filename True False 128 = (Inr (Some newFileName), t')"
  then show "OpenFileInDataDirFD w filename mode =
        (Inr (sys_open w (data_dir_path w newFileName) mode),
         Open (data_dir_path w filename) # t' @ [Open (data_dir_path w newFileName)])"
    by (simp add: OpenFileInDataDirFD_def Let_def)
next
  assume "getSGPFileFromFD w fd filename fmode = Inr h"
  then show "0 \<le> fd" "\<exists>f. fdopen w fd fmode = Some f \<and> h = SGPFILE_REAL f"
    using getSGPFileFromFD_real by blast+
next
  assume "s_dataDir w \<noteq> [] \<and> last (s_dataDir w) \<noteq> PATH_SEPARATOR
        \<and> (filename = [] \<or> hd filename \<noteq> PATH_SEPARATOR)
        \<and> length (s_dataDir w) + length filename < 511"
  then show "data_dir_path w filename = joinPaths (s_dataDir w) filename"
    by (simp add: data_dir_path_join)
next
  assume run: "openForReadingSmart w filename useSmartLookup = (r, calls)"
  show "\<forall>p. Open p \<in> set (butlast calls) \<longrightarrow> sys_open w p O_RDONLY < 0"
    and "\<forall>f. r = Inr (SGPFILE_REAL f) \<longrightarrow>
              (\<exists>p. last calls = Open p \<and> 0 \<le> sys_open w p O_RDONLY)"
    and "\<forall>libFile. r = Inr (SGPFILE_NONE libFile) \<longrightarrow>
              last calls = LibraryOpen filename \<and> OpenFileFromLibrary w filename = Some libFile
              \<and> (\<forall>p. Open p \<in> set calls \<longrightarrow> sys_open w p O_RDONLY < 0)"
    using openForReadingSmart_trace [OF run] by blast+
qed

lemma openForReadingSmart_order_example:
  "openForReadingSmart example_machine ''local.txt'' True =
     (Inr (SGPFILE_REAL \<lparr>contents = [1, 2, 3], offset = 0, can_read = True, can_write = False, room = 0\<rparr>),
      [Open ''local.txt''])
   \<and> sys_open example_machine ''readme.txt'' O_RDONLY < 0
   \<and> openForReadingSmart example_machine ''readme.txt'' False =
     (Inl (runtime_error (opening_failed ''readme.txt'')), [Open ''readme.txt''])
   \<and> openForReadingSmart example_machine ''readme.txt'' True =
     (Inr (SGPFILE_REAL \<lparr>contents = [1, 2, 3], offset = 0, can_read = True, can_write = False, room = 0\<rparr>),
      [Open ''readme.txt'', Open ''/ja2/data/readme.txt''])
   \<and> sys_open example_machine ''/ja2/data/BINARYDATA/X.DAT'' O_RDONLY < 0
   \<and> findObjectCaseInsensitive example_machine ''/ja2/data'' ''BINARYDATA/X.DAT'' True False 128 =
     (Inr (Some ''BinaryData/x.dat''), [Opendir ''/ja2/data'', Opendir ''/ja2/data/BinaryData''])
   \<and> openForReadingSmart example_machine ''BINARYDATA/X.DAT'' True =
     (Inr (SGPFILE_REAL \<lparr>contents = [1, 2, 3], offset = 0, can_read = True, can_write = False, room = 0\<rparr>),
      [Open ''BINARYDATA/X.DAT'', Open ''/ja2/data/BINARYDATA/X.DAT'', Opendir ''/ja2/data'',
       Opendir ''/ja2/data/BinaryData'', Open ''/ja2/data/BinaryData/x.dat''])
   \<and> findObjectCaseInsensitive example_machine ''/ja2/data'' ''INTERFACE/a.sti'' True False 128 =
     (Inr None, [Opendir ''/ja2/data''])
   \<and> openForReadingSmart example_machine ''INTERFACE/a.sti'' True =
     (Inr (SGPFILE_NONE \<lparr>entry_bytes = [7, 8], uiFilePosInFile = 0\<rparr>),
      [Open ''INTERFACE/a.sti'', Open ''/ja2/data/INTERFACE/a.sti'', Opendir ''/ja2/data'',
       LibraryOpen ''INTERFACE/a.sti''])
   \<and> data_dir_path example_machine ''readme.txt'' = joinPaths ''/ja2/data'' ''readme.txt''"
proof -
  note machine = example_machine_def O_RDONLY_def data_dir_path_def snprintf_def
    getSGPFileFromFD_def opening_failed_def
  note lookup = findObjectCaseInsensitive.simps has_directory_def splitter_of_def dirNameLen_of_def
    objectTypes_of_def entry_matches_def DT_REG_def DT_DIR_def tolower_def joinPaths_buf_def
    strncat_def PATH_SEPARATOR_def
  note literal = openForReadingSmart_order [THEN conjunct1]
  note in_data_dir = openForReadingSmart_order [THEN conjunct2, THEN conjunct1]
  note in_library = openForReadingSmart_order [THEN conjunct2, THEN conjunct2, THEN conjunct1]
  note data_plain = openForReadingSmart_order [THEN conjunct2, THEN conjunct2, THEN conjunct2, THEN conjunct1]
  note data_none = openForReadingSmart_order [THEN conjunct2, THEN conjunct2, THEN conjunct2,
      THEN conjunct2, THEN conjunct1]
  note data_retry = openForReadingSmart_order [THEN conjunct2, THEN conjunct2, THEN conjunct2,
      THEN conjunct2, THEN conjunct2, THEN conjunct1]
  note joined = openForReadingSmart_order [THEN conjunct2, THEN conjunct2, THEN conjunct2,
      THEN conjunct2, THEN conjunct2, THEN conjunct2, THEN conjunct2, THEN conjunct1]
  have found: "findObjectCaseInsensitive example_machine ''/ja2/data'' ''BINARYDATA/X.DAT'' True False 128 =
     (Inr (Some ''BinaryData/x.dat''), [Opendir ''/ja2/data'', Opendir ''/ja2/data/BinaryData''])"
    by (simp add: lookup example_machine_def)
  have missing: "findObjectCaseInsensitive example_machine ''/ja2/data'' ''INTERFACE/a.sti'' True False 128 =
     (Inr None, [Opendir ''/ja2/data''])"
    by (simp add: lookup example_machine_def)
  have dir: "s_dataDir example_machine = ''/ja2/data''" and cs: "CASE_SENSITIVE_FS example_machine"
    by (simp_all add: example_machine_def)
  have c1: "openForReadingSmart example_machine ''local.txt'' True =
     (Inr (SGPFILE_REAL \<lparr>contents = [1, 2, 3], offset = 0, can_read = True, can_write = False, room = 0\<rparr>),
      [Open ''local.txt''])"
    using literal [of example_machine "''local.txt''" True] by (simp add: machine)
  have c2: "sys_open example_machine ''readme.txt'' O_RDONLY < 0"
    by (simp add: machine)
  have c3: "openForReadingSmart example_machine ''readme.txt'' False =
     (Inl (runtime_error (opening_failed ''readme.txt'')), [Open ''readme.txt''])"
    using literal [of example_machine "''readme.txt''" False] by (simp add: machine)
  have "OpenFileInDataDirFD example_machine ''readme.txt'' O_RDONLY =
      (Inr 3, [Open ''/ja2/data/readme.txt''])"
    using data_plain [of example_machine "''readme.txt''" O_RDONLY] by (simp add: machine)
  then have c4: "openForReadingSmart example_machine ''readme.txt'' True =
     (Inr (SGPFILE_REAL \<lparr>contents = [1, 2, 3], offset = 0, can_read = True, can_write = False, room = 0\<rparr>),
      [Open ''readme.txt'', Open ''/ja2/data/readme.txt''])"
    using in_data_dir [of example_machine "''readme.txt''" 3 "[Open ''/ja2/data/readme.txt'']"]
    by (simp add: machine)
  have c5: "sys_open example_machine ''/ja2/data/BINARYDATA/X.DAT'' O_RDONLY < 0"
    by (simp add: machine)
  have "OpenFileInDataDirFD example_machine ''BINARYDATA/X.DAT'' O_RDONLY =
      (Inr 3, [Open ''/ja2/data/BINARYDATA/X.DAT'', Opendir ''/ja2/data'',
               Opendir ''/ja2/data/BinaryData'', Open ''/ja2/data/BinaryData/x.dat''])"
    using data_retry [of example_machine "''BINARYDATA/X.DAT''" O_RDONLY "''BinaryData/x.dat''"
        "[Opendir ''/ja2/data'', Opendir ''/ja2/data/BinaryData'']"] found c5 cs dir
    by (simp add: machine)
  then have c6: "openForReadingSmart example_machine ''BINARYDATA/X.DAT'' True =
     (Inr (SGPFILE_REAL \<lparr>contents = [1, 2, 3], offset = 0, can_read = True, can_write = False, room = 0\<rparr>),
      [Open ''BINARYDATA/X.DAT'', Open ''/ja2/data/BINARYDATA/X.DAT'', Opendir ''/ja2/data'',
       Opendir ''/ja2/data/BinaryData'', Open ''/ja2/data/BinaryData/x.dat''])"
    using in_data_dir [of example_machine "''BINARYDATA/X.DAT''" 3
        "[Open ''/ja2/data/BINARYDATA/X.DAT'', Opendir ''/ja2/data'',
          Opendir ''/ja2/data/BinaryData'', Open ''/ja2/data/BinaryData/x.dat'']"]
    by (simp add: machine)
  have "OpenFileInDataDirFD example_machine ''INTERFACE/a.sti'' O_RDONLY =
      (Inr (- 1), [Open ''/ja2/data/INTERFACE/a.sti'', Opendir ''/ja2/data''])"
    using data_none [of example_machine "''INTERFACE/a.sti''" O_RDONLY "[Opendir ''/ja2/data'']"]
      missing cs dir
    by (simp add: machine)
  then have c7: "openForReadingSmart example_machine ''INTERFACE/a.sti'' True =
     (Inr (SGPFILE_NONE \<lparr>entry_bytes = [7, 8], uiFilePosInFile = 0\<rparr>),
      [Open ''INTERFACE/a.sti'', Open ''/ja2/data/INTERFACE/a.sti'', Opendir ''/ja2/data'',
       LibraryOpen ''INTERFACE/a.sti''])"
    using in_library [of example_machine "''INTERFACE/a.sti''" "- 1"
        "[Open ''/ja2/data/INTERFACE/a.sti'', Opendir ''/ja2/data'']"
        "\<lparr>entry_bytes = [7, 8], uiFilePosInFile = 0\<rparr>"]
    by (simp add: machine)
  have c8: "data_dir_path example_machine ''readme.txt'' = joinPaths ''/ja2/data'' ''readme.txt''"
    using joined [of example_machine "''readme.txt''"] by (simp add: example_machine_def PATH_SEPARATOR_def)
  show ?thesis
    using c1 c2 c3 c4 c5 found c6 missing c7 c8 by (intro conjI)
qed

text \<open>
  Where the lookup returns, a name that can be opened neither as it is nor at its path in
  the data directory (not under the name the case-insensitive lookup finds either) and that
  no library holds makes \<open>openForReadingSmart\<close> throw: no handle is returned, and the
  exception is the one thrown without smart lookup, which names the file and not the place
  that was searched last.
\<close>

lemma openForReadingSmart_not_found:
  assumes "sys_open w filename O_RDONLY < 0"
    and "sys_open w (data_dir_path w filename) O_RDONLY < 0"
    and "CASE_SENSITIVE_FS w \<longrightarrow>
           fst (findObjectCaseInsensitive w (s_dataDir w) filename True False 128) = Inr None
           \<or> (\<exists>newFileName.
                 fst (findObjectCaseInsensitive w (s_dataDir w) filename True False 128) =
                   Inr (Some newFileName)
                 \<and> sys_open w (data_dir_path w newFileName) O_RDONLY < 0)"
    and "OpenFileFromLibrary w filename = None"
  shows "fst (openForReadingSmart w filename True) = Inl (runtime_error (opening_failed filename))
         \<and> fst (openForReadingSmart w filename False) = Inl (runtime_error (opening_failed filename))"
proof -
  obtain d t where data: "OpenFileInDataDirFD w filename O_RDONLY = (Inr d, t)" and "d < 0"
  proof (cases "CASE_SENSITIVE_FS w")
    case False
    with assms(2) that show ?thesis
      by (simp add: OpenFileInDataDirFD_def Let_def)
  next
    case True
    obtain r t' where lookup: "findObjectCaseInsensitive w (s_dataDir w) filename True False 128 = (r, t')"
      by (cases "findObjectCaseInsensitive w (s_dataDir w) filename True False 128")
    with True assms(3) consider "r = Inr None"
      | newFileName where "r = Inr (Some newFileName)"
          and "sys_open w (data_dir_path w newFileName) O_RDONLY < 0"
      by auto
    then show ?thesis
    proof cases
      case 1
      with True assms(2) lookup that show ?thesis
        by (simp add: OpenFileInDataDirFD_def Let_def)
    next
      case 2
      with True assms(2) lookup that show ?thesis
        by (simp add: OpenFileInDataDirFD_def Let_def)
    qed
  qed
  with assms(1,4) show ?thesis
    by (simp add: openForReadingSmart_def GetFileOpenModes_READ Let_def getSGPFileFromFD_def)
qed

lemma openForReadingSmart_not_found_example:
  "sys_open example_machine ''nothing'' O_RDONLY < 0
   \<and> sys_open example_machine (data_dir_path example_machine ''nothing'') O_RDONLY < 0
   \<and> CASE_SENSITIVE_FS example_machine
   \<and> fst (findObjectCaseInsensitive example_machine ''/ja2/data'' ''nothing'' True False 128) = Inr None
   \<and> OpenFileFromLibrary example_machine ''nothing'' = None
   \<and> fst (openForReadingSmart example_machine ''nothing'' True) =
       Inl (runtime_error ''Opening file 'nothing' failed'')"
proof -
  have lookup: "fst (findObjectCaseInsensitive example_machine ''/ja2/data'' ''nothing'' True False 128) = Inr None"
    by (simp add: findObjectCaseInsensitive.simps has_directory_def splitter_of_def
        objectTypes_of_def entry_matches_def DT_REG_def DT_DIR_def tolower_def example_machine_def)
  have message: "opening_failed ''nothing'' = ''Opening file 'nothing' failed''"
    by (simp add: opening_failed_def snprintf_def)
  show ?thesis
    using lookup openForReadingSmart_not_found [of example_machine "''nothing''"]
    by (simp add: example_machine_def message data_dir_path_def snprintf_def O_RDONLY_def)
qed

text \<open>
  A name whose part before the first separator has 128 bytes or more, and that can be
  opened neither as it is nor at its path in the data directory, ends the call on a
  case-sensitive filesystem in the lookup, which writes behind its buffer \<open>newDirectory\<close>:
  no directory is read, and the library is not asked.
\<close>

lemma length_differs:
  "length xs \<noteq> length ys \<Longrightarrow> xs \<noteq> ys"
  by auto

lemma lookup_overruns:
  assumes "CHR ''/'' \<notin> set dir" and "128 \<le> length dir" and "rest \<noteq> []"
  shows "findObjectCaseInsensitive w directory (dir @ ''/'' @ rest)
           lookForFiles lookForSubdirs nameBufSize = (Inl out_of_bounds, [])"
proof -
  define name where "name = dir @ ''/'' @ rest"
  have "takeWhile (\<lambda>c. c \<noteq> CHR ''/'') name = dir"
    using assms(1) by (simp add: name_def takeWhile_append)
  moreover have "dropWhile (\<lambda>c. c \<noteq> CHR ''/'') name = ''/'' @ rest"
    using assms(1) by (simp add: name_def dropWhile_append)
  moreover have "dir \<noteq> []"
    using assms(2) by auto
  ultimately have "findObjectCaseInsensitive w directory name
      lookForFiles lookForSubdirs nameBufSize = (Inl out_of_bounds, [])"
    using assms(2,3)
    by (simp add: findObjectCaseInsensitive.simps [of w directory name]
        has_directory_def splitter_of_def dirNameLen_of_def)
  then show ?thesis
    by (simp only: name_def)
qed

lemma openForReadingSmart_overruns:
  assumes "CHR ''/'' \<notin> set dir" and "128 \<le> length dir" and "rest \<noteq> []"
    and "sys_open w (dir @ ''/'' @ rest) O_RDONLY < 0"
    and "sys_open w (data_dir_path w (dir @ ''/'' @ rest)) O_RDONLY < 0"
    and "CASE_SENSITIVE_FS w"
  shows "openForReadingSmart w (dir @ ''/'' @ rest) True =
           (Inl out_of_bounds,
            [Open (dir @ ''/'' @ rest), Open (data_dir_path w (dir @ ''/'' @ rest))])"
proof -
  have "OpenFileInDataDirFD w (dir @ ''/'' @ rest) O_RDONLY =
      (Inl out_of_bounds, [Open (data_dir_path w (dir @ ''/'' @ rest))])"
    using assms(5,6) lookup_overruns [OF assms(1-3), of w "s_dataDir w" True False 128]
    by (simp add: OpenFileInDataDirFD_def Let_def)
  with assms(4) show ?thesis
    by (simp add: openForReadingSmart_def GetFileOpenModes_READ Let_def)
qed

text \<open>
  C1. The library is not always reached. On a case-sensitive filesystem, take a name
  whose part before the first separator has 128 bytes or more, that can be opened neither
  as it is nor at its path in the data directory, and that the library holds.
  \<open>openForReadingSmart\<close> with smart lookup makes the two calls of \<open>open\<close> and then runs the
  case-insensitive lookup, which writes behind its buffer \<open>newDirectory\<close>: the call ends
  there, no handle of the library entry is returned, and the library was never asked.
\<close>

theorem openForReadingSmart_overrun_skips_library:
  assumes "CHR ''/'' \<notin> set dir" and "128 \<le> length dir" and "rest \<noteq> []"
    and "sys_open w (dir @ ''/'' @ rest) O_RDONLY < 0"
    and "sys_open w (data_dir_path w (dir @ ''/'' @ rest)) O_RDONLY < 0"
    and "CASE_SENSITIVE_FS w"
    and "OpenFileFromLibrary w (dir @ ''/'' @ rest) = Some libFile"
  shows "openForReadingSmart w (dir @ ''/'' @ rest) True =
           (Inl out_of_bounds,
            [Open (dir @ ''/'' @ rest), Open (data_dir_path w (dir @ ''/'' @ rest))])
         \<and> fst (openForReadingSmart w (dir @ ''/'' @ rest) True) \<noteq> Inr (SGPFILE_NONE libFile)
         \<and> LibraryOpen (dir @ ''/'' @ rest) \<notin> set (snd (openForReadingSmart w (dir @ ''/'' @ rest) True))"
  using openForReadingSmart_overruns [OF assms(1-6)] by simp

theorem openForReadingSmart_overrun_skips_library_witness:
  "sys_open library_machine (replicate 128 CHR ''a'' @ ''/x'') O_RDONLY < 0
   \<and> sys_open library_machine (data_dir_path library_machine (replicate 128 CHR ''a'' @ ''/x'')) O_RDONLY < 0
   \<and> CASE_SENSITIVE_FS library_machine
   \<and> OpenFileFromLibrary library_machine (replicate 128 CHR ''a'' @ ''/x'') =
       Some \<lparr>entry_bytes = [7, 8], uiFilePosInFile = 0\<rparr>
   \<and> openForReadingSmart library_machine (replicate 128 CHR ''a'' @ ''/x'') True =
       (Inl out_of_bounds,
        [Open (replicate 128 CHR ''a'' @ ''/x''),
         Open (''/ja2/data/'' @ replicate 128 CHR ''a'' @ ''/x'')])"
proof -
  let ?name = "replicate 128 CHR ''a'' @ ''/x''"
  have path: "data_dir_path library_machine ?name = ''/ja2/data/'' @ ?name"
    by (simp add: data_dir_path_def snprintf_def library_machine_def example_machine_def)
  have different: "?name \<noteq> ''local.txt''"
    "''/ja2/data/'' @ ?name \<noteq> ''/ja2/data/BinaryData/x.dat''"
    "''/ja2/data/'' @ ?name \<noteq> ''/ja2/data/readme.txt''"
    by (rule length_differs, simp)+
  have literal: "sys_open library_machine ?name O_RDONLY < 0"
    using different(1) by (simp add: library_machine_def example_machine_def)
  have data: "sys_open library_machine (data_dir_path library_machine ?name) O_RDONLY < 0"
    unfolding path using different(2,3)
    by (simp add: library_machine_def example_machine_def)
  have sensitive: "CASE_SENSITIVE_FS library_machine"
    by (simp add: library_machine_def example_machine_def)
  have held: "OpenFileFromLibrary library_machine ?name = Some \<lparr>entry_bytes = [7, 8], uiFilePosInFile = 0\<rparr>"
    by (simp add: library_machine_def)
  have "openForReadingSmart library_machine ?name True =
      (Inl out_of_bounds, [Open ?name, Open (data_dir_path library_machine ?name)])"
    using openForReadingSmart_overrun_skips_library
      [of "replicate 128 CHR ''a''" "''x''" library_machine, OF _ _ _ _ _ sensitive]
      literal data held
    by simp
  with literal data sensitive held show ?thesis
    by (simp only: path simp_thms)
qed

text \<open>
  C2. A name absent everywhere does not always end in the exception of
  \<open>getSGPFileFromFD\<close>. On a case-sensitive filesystem, take a name whose part before the
  first separator has 128 bytes or more, that can be opened neither as it is nor at its
  path in the data directory, and that the library does not hold. \<open>openForReadingSmart\<close>
  with smart lookup ends in the case-insensitive lookup, which writes behind its buffer
  \<open>newDirectory\<close>, and not with the \<open>runtime_error\<close> that names the file.
\<close>

theorem openForReadingSmart_overrun_not_reported:
  assumes "CHR ''/'' \<notin> set dir" and "128 \<le> length dir" and "rest \<noteq> []"
    and "sys_open w (dir @ ''/'' @ rest) O_RDONLY < 0"
    and "sys_open w (data_dir_path w (dir @ ''/'' @ rest)) O_RDONLY < 0"
    and "CASE_SENSITIVE_FS w"
    and "OpenFileFromLibrary w (dir @ ''/'' @ rest) = None"
  shows "fst (openForReadingSmart w (dir @ ''/'' @ rest) True) = Inl out_of_bounds
         \<and> fst (openForReadingSmart w (dir @ ''/'' @ rest) True) \<noteq>
             Inl (runtime_error (opening_failed (dir @ ''/'' @ rest)))"
  using openForReadingSmart_overruns [OF assms(1-6)] by simp

theorem openForReadingSmart_overrun_not_reported_witness:
  "sys_open example_machine (replicate 128 CHR ''a'' @ ''/x'') O_RDONLY < 0
   \<and> sys_open example_machine (data_dir_path example_machine (replicate 128 CHR ''a'' @ ''/x'')) O_RDONLY < 0
   \<and> CASE_SENSITIVE_FS example_machine
   \<and> opendir example_machine (''/ja2/data/'' @ replicate 128 CHR ''a'') = None
   \<and> OpenFileFromLibrary example_machine (replicate 128 CHR ''a'' @ ''/x'') = None
   \<and> fst (openForReadingSmart example_machine (replicate 128 CHR ''a'' @ ''/x'') True) = Inl out_of_bounds
   \<and> fst (openForReadingSmart example_machine (replicate 128 CHR ''a'' @ ''/x'') False) =
       Inl (runtime_error (opening_failed (replicate 128 CHR ''a'' @ ''/x'')))"
proof -
  let ?name = "replicate 128 CHR ''a'' @ ''/x''"
  have path: "data_dir_path example_machine ?name = ''/ja2/data/'' @ ?name"
    by (simp add: data_dir_path_def snprintf_def example_machine_def)
  have different: "?name \<noteq> ''local.txt''" "?name \<noteq> ''INTERFACE/a.sti''"
    "''/ja2/data/'' @ ?name \<noteq> ''/ja2/data/BinaryData/x.dat''"
    "''/ja2/data/'' @ ?name \<noteq> ''/ja2/data/readme.txt''"
    "''/ja2/data/'' @ replicate 128 CHR ''a'' \<noteq> ''/ja2/data''"
    "''/ja2/data/'' @ replicate 128 CHR ''a'' \<noteq> ''/ja2/data/BinaryData''"
    by (rule length_differs, simp)+
  have literal: "sys_open example_machine ?name O_RDONLY < 0"
    using different(1) by (simp add: example_machine_def)
  have data: "sys_open example_machine (data_dir_path example_machine ?name) O_RDONLY < 0"
    unfolding path using different(3,4) by (simp add: example_machine_def)
  have sensitive: "CASE_SENSITIVE_FS example_machine"
    by (simp add: example_machine_def)
  have nodir: "opendir example_machine (''/ja2/data/'' @ replicate 128 CHR ''a'') = None"
    using different(5,6) by (simp add: example_machine_def)
  have absent: "OpenFileFromLibrary example_machine ?name = None"
    using different(2) by (simp add: example_machine_def)
  have smart: "fst (openForReadingSmart example_machine ?name True) = Inl out_of_bounds"
    using openForReadingSmart_overrun_not_reported
      [of "replicate 128 CHR ''a''" "''x''" example_machine, OF _ _ _ _ _ sensitive]
      literal data absent
    by simp
  have plain: "fst (openForReadingSmart example_machine ?name False) =
      Inl (runtime_error (opening_failed ?name))"
    using literal
    by (simp add: openForReadingSmart_def GetFileOpenModes_READ Let_def getSGPFileFromFD_def
       )
  from literal data sensitive nodir absent smart plain show ?thesis
    by (simp only: simp_thms)
qed

section \<open>Properties of the file handles\<close>

text \<open>
  A read from a stream supplies the bytes asked for or throws, and so does a read from a
  library entry as long as the count fits 32 bits.
\<close>

lemma FileRead_real_all_or_nothing:
  assumes "FileRead (SGPFILE_REAL file) n = (thrown, pDest, f')"
  shows "(thrown = None \<and> pDest = take (unat n) (drop (offset file) (contents file)) \<and> length pDest = unat n)
         \<or> thrown = Some (runtime_error ''Reading from file failed'')"
proof -
  have whole: "k = m" if "k div m = Suc 0" "k \<le> m" for k m :: nat
    using that by (cases "k < m") auto
  show ?thesis
    using assms
    by (auto simp: FileRead_def fread_def Let_def split: if_splits dest!: whole)
qed

lemma FileRead_library_all_or_nothing:
  assumes "unat n < 2 ^ 32"
    and "FileRead (SGPFILE_NONE lib) n = (thrown, pDest, f')"
  shows "(thrown = None \<and> length pDest = unat n)
         \<or> (thrown = Some (runtime_error ''Reading from file failed'') \<and> pDest = [] \<and> f' = SGPFILE_NONE lib)"
proof -
  have "unat (ucast n :: UINT32) = unat n"
    using assms(1) by (simp add: unsigned_ucast_eq take_bit_nat_eq_self)
  with assms(2) show ?thesis
    by (auto simp: FileRead_def LoadDataFromLibrary_def split: if_splits)
qed

text \<open>
  C6 fails on the code for the handle of a library entry when the count does not fit 32
  bits: \<open>FileRead\<close> passes \<open>(UINT32)uiBytesToRead\<close> to the library, so a read of
  \<open>2^32 + 4\<close> bytes from an entry of five bytes supplies four bytes and returns normally.
\<close>

theorem FileRead_library_count_truncated:
  "FileRead (SGPFILE_NONE \<lparr>entry_bytes = [1, 2, 3, 4, 5], uiFilePosInFile = 0\<rparr>) 4294967300 =
     (None, [1, 2, 3, 4], SGPFILE_NONE \<lparr>entry_bytes = [1, 2, 3, 4, 5], uiFilePosInFile = 4\<rparr>)"
  by (simp add: FileRead_def LoadDataFromLibrary_def)

theorem FileRead_library_count_truncated_witness:
  "unat (4294967300 :: size_t) = 4294967300
   \<and> fst (FileRead (SGPFILE_NONE \<lparr>entry_bytes = [1, 2, 3, 4, 5], uiFilePosInFile = 0\<rparr>) 4294967300) = None
   \<and> length (fst (snd (FileRead (SGPFILE_NONE \<lparr>entry_bytes = [1, 2, 3, 4, 5], uiFilePosInFile = 0\<rparr>)
        4294967300))) = 4"
  using FileRead_library_count_truncated by simp

text \<open>
  C10. For every handle of a real file, a read of zero bytes throws the exception of a
  failed read: \<open>fread\<close> is asked for one item of size zero and returns zero, not one.
  Nothing is stored and the stream stays as it is.
\<close>

theorem FileRead_zero_bytes:
  "FileRead (SGPFILE_REAL file) 0 =
     (Some (runtime_error ''Reading from file failed''), [], SGPFILE_REAL file)"
  by (simp add: FileRead_def fread_def)

theorem FileRead_zero_bytes_witness:
  "FileRead (SGPFILE_REAL \<lparr>contents = [1, 2, 3], offset = 0, can_read = True, can_write = False, room = 0\<rparr>) 0 =
     (Some (runtime_error ''Reading from file failed''), [],
      SGPFILE_REAL \<lparr>contents = [1, 2, 3], offset = 0, can_read = True, can_write = False, room = 0\<rparr>)"
  using FileRead_zero_bytes
    [of "\<lparr>contents = [1, 2, 3], offset = 0, can_read = True, can_write = False, room = 0\<rparr>"]
  by simp

text \<open>
  C7. A write to the handle of a library entry throws \<open>logic_error\<close> whatever \<open>fwrite\<close> would
  do, and leaves the handle as it is: nothing is written. A write to the handle of a real
  file is one call of \<open>fwrite\<close> for one item of \<open>uiBytesToWrite\<close> bytes; when \<open>fwrite\<close> reports
  less than that item written, the call throws \<open>runtime_error\<close> (writing failed), and it
  returns normally exactly when \<open>fwrite\<close> reports the item written. The handle afterwards
  holds the stream as \<open>fwrite\<close> left it.
\<close>

theorem FileWrite_contract:
  "FileWrite fwrite (SGPFILE_NONE lib) pDest =
     (Some (logic_error ''Tried to write to library file''), SGPFILE_NONE lib)
   \<and> (fst (fwrite pDest (length pDest) 1 file) < 1 \<longrightarrow>
        fst (FileWrite fwrite (SGPFILE_REAL file) pDest) =
          Some (runtime_error ''Writing to file failed''))
   \<and> (fst (FileWrite fwrite (SGPFILE_REAL file) pDest) = None \<longleftrightarrow>
        fst (fwrite pDest (length pDest) 1 file) = 1)
   \<and> snd (FileWrite fwrite (SGPFILE_REAL file) pDest) =
        SGPFILE_REAL (snd (fwrite pDest (length pDest) 1 file))"
  by (cases "fwrite pDest (length pDest) 1 file") (auto simp: FileWrite_def)

theorem FileWrite_contract_witness:
  "FileWrite unbuffered_fwrite (SGPFILE_NONE \<lparr>entry_bytes = [7, 8], uiFilePosInFile = 0\<rparr>) [1, 2, 3] =
     (Some (logic_error ''Tried to write to library file''),
      SGPFILE_NONE \<lparr>entry_bytes = [7, 8], uiFilePosInFile = 0\<rparr>)
   \<and> fst (unbuffered_fwrite [1, 2, 3] (length [1, 2, 3 :: byte]) 1
        \<lparr>contents = [], offset = 0, can_read = False, can_write = True, room = 2\<rparr>) < 1
   \<and> FileWrite unbuffered_fwrite
        (SGPFILE_REAL \<lparr>contents = [], offset = 0, can_read = False, can_write = True, room = 2\<rparr>)
        [1, 2, 3] =
     (Some (runtime_error ''Writing to file failed''),
      SGPFILE_REAL \<lparr>contents = [1, 2], offset = 2, can_read = False, can_write = True, room = 0\<rparr>)
   \<and> FileWrite append_fwrite
        (SGPFILE_REAL \<lparr>contents = [8, 9], offset = 0, can_read = False, can_write = True, room = 9\<rparr>)
        [1, 2, 3] =
     (None,
      SGPFILE_REAL \<lparr>contents = [8, 9, 1, 2, 3], offset = 5, can_read = False, can_write = True,
        room = 6\<rparr>)
   \<and> FileWrite buffered_fwrite
        (SGPFILE_REAL \<lparr>contents = [], offset = 0, can_read = False, can_write = True, room = 0\<rparr>)
        [1, 2, 3] =
     (None, SGPFILE_REAL \<lparr>contents = [], offset = 0, can_read = False, can_write = True, room = 0\<rparr>)"
proof -
  let ?lib = "\<lparr>entry_bytes = [7, 8], uiFilePosInFile = 0\<rparr>"
  let ?full = "\<lparr>contents = [], offset = 0, can_read = False, can_write = True, room = 2\<rparr>"
  let ?log = "\<lparr>contents = [8, 9], offset = 0, can_read = False, can_write = True, room = 9\<rparr>"
  let ?held = "\<lparr>contents = [], offset = 0, can_read = False, can_write = True, room = 0\<rparr>"
  have short: "unbuffered_fwrite [1, 2, 3] (length [1, 2, 3 :: byte]) 1 ?full =
      (0, \<lparr>contents = [1, 2], offset = 2, can_read = False, can_write = True, room = 0\<rparr>)"
    by (simp add: unbuffered_fwrite_def store_def)
  have appended: "append_fwrite [1, 2, 3] (length [1, 2, 3 :: byte]) 1 ?log =
      (1, \<lparr>contents = [8, 9, 1, 2, 3], offset = 5, can_read = False, can_write = True, room = 6\<rparr>)"
    by (simp add: append_fwrite_def)
  have held: "buffered_fwrite [1, 2, 3] (length [1, 2, 3 :: byte]) 1 ?held = (1, ?held)"
    by (simp add: buffered_fwrite_def)
  have library: "FileWrite unbuffered_fwrite (SGPFILE_NONE ?lib) [1, 2, 3] =
      (Some (logic_error ''Tried to write to library file''), SGPFILE_NONE ?lib)"
    using FileWrite_contract [of unbuffered_fwrite ?lib "[1, 2, 3]"] by simp
  have failed: "FileWrite unbuffered_fwrite (SGPFILE_REAL ?full) [1, 2, 3] =
      (Some (runtime_error ''Writing to file failed''),
       SGPFILE_REAL \<lparr>contents = [1, 2], offset = 2, can_read = False, can_write = True, room = 0\<rparr>)"
    using FileWrite_contract [of unbuffered_fwrite ?lib "[1, 2, 3]" ?full] short
    by (simp add: prod_eq_iff)
  have at_end: "FileWrite append_fwrite (SGPFILE_REAL ?log) [1, 2, 3] =
      (None,
       SGPFILE_REAL \<lparr>contents = [8, 9, 1, 2, 3], offset = 5, can_read = False, can_write = True,
         room = 6\<rparr>)"
    using FileWrite_contract [of append_fwrite ?lib "[1, 2, 3]" ?log] appended
    by (simp add: prod_eq_iff)
  have reported: "FileWrite buffered_fwrite (SGPFILE_REAL ?held) [1, 2, 3] = (None, SGPFILE_REAL ?held)"
    using FileWrite_contract [of buffered_fwrite ?lib "[1, 2, 3]" ?held] held
    by (simp add: prod_eq_iff)
  show ?thesis
    using library short failed at_end reported by simp
qed

section \<open>Properties of erasing the contents of a directory\<close>

lemma FileDelete_cases:
  "FileDelete w p =
     (case nodes w p of
        None \<Rightarrow> (None, w)
      | Some i \<Rightarrow>
          if is_directory i \<or> unlink_refused i then (Some (runtime_error ''Deleting file failed''), w)
          else (None, w\<lparr>nodes := (nodes w)(p := None)\<rparr>))"
  by (simp add: FileDelete_def unlink_def split: option.splits)

lemma erase_step:
  "erase_loop w path (matched # rest) =
     (case nodes w (erase_target path matched) of
        None \<Rightarrow> erase_loop w path rest
      | Some i \<Rightarrow>
          if is_directory i \<or> unlink_refused i
          then (if \<not> stat_fails i \<and> S_ISDIR i then erase_loop w path rest
                else (Some (runtime_error ''Deleting file failed''), w))
          else erase_loop (w\<lparr>nodes := (nodes w)(erase_target path matched := None)\<rparr>) path rest)"
  by (simp add: FileDelete_cases FileGetAttributes_def Let_def split: option.splits)

text \<open>
  The loop changes nothing but the names it unlinks: a path of the machine either stays
  as it was, or it was the \<open>path/name\<close> built for a match, was not itself a directory, and
  is gone.
\<close>

lemma erase_loop_frame:
  "erase_loop w path ms = (r, w') \<Longrightarrow>
   w' = w\<lparr>nodes := nodes w'\<rparr> \<and>
   (\<forall>q. nodes w' q = nodes w q \<or>
        (nodes w' q = None \<and> q \<in> erase_target path ` set ms \<and>
         (\<exists>i. nodes w q = Some i \<and> \<not> is_directory i \<and> \<not> unlink_refused i)))"
proof (induction ms arbitrary: w)
  case Nil
  then show ?case by simp
next
  case (Cons m ms)
  let ?t = "erase_target path m"
  show ?case
  proof (cases "nodes w ?t")
    case None
    with Cons.prems have "erase_loop w path ms = (r, w')"
      by (simp add: erase_step del: erase_loop.simps)
    from Cons.IH [OF this] show ?thesis by auto
  next
    case (Some i)
    show ?thesis
    proof (cases "is_directory i \<or> unlink_refused i")
      case True
      show ?thesis
      proof (cases "\<not> stat_fails i \<and> S_ISDIR i")
        case skipped: True
        with Some True Cons.prems have "erase_loop w path ms = (r, w')"
          by (simp add: erase_step del: erase_loop.simps)
        from Cons.IH [OF this] show ?thesis by auto
      next
        case False
        with Some True Cons.prems show ?thesis
          by (auto simp: erase_step simp del: erase_loop.simps)
      qed
    next
      case False
      let ?w2 = "w\<lparr>nodes := (nodes w)(?t := None)\<rparr>"
      from Some False Cons.prems have "erase_loop ?w2 path ms = (r, w')"
        by (simp add: erase_step del: erase_loop.simps)
      from Cons.IH [OF this] have eq: "w' = ?w2\<lparr>nodes := nodes w'\<rparr>"
        and fr: "\<And>q. nodes w' q = nodes ?w2 q \<or>
          (nodes w' q = None \<and> q \<in> erase_target path ` set ms \<and>
           (\<exists>i. nodes ?w2 q = Some i \<and> \<not> is_directory i \<and> \<not> unlink_refused i))"
        by blast+
      have "w' = w\<lparr>nodes := nodes w'\<rparr>"
        using eq by simp
      moreover have "nodes w' q = nodes w q \<or>
          (nodes w' q = None \<and> q \<in> erase_target path ` set (m # ms) \<and>
           (\<exists>i. nodes w q = Some i \<and> \<not> is_directory i \<and> \<not> unlink_refused i))" for q
        using fr [of q] Some False by (cases "q = ?t") auto
      ultimately show ?thesis by blast
    qed
  qed
qed

text \<open>
  After a normal return, what is left at the \<open>path/name\<close> built for a match is a name that
  could not be unlinked and that \<open>stat\<close> reports as a directory.
\<close>

lemma erase_loop_removes:
  "erase_loop w path ms = (None, w') \<Longrightarrow> m \<in> set ms \<Longrightarrow>
   nodes w' (erase_target path m) = Some i \<Longrightarrow>
   (is_directory i \<or> unlink_refused i) \<and> \<not> stat_fails i \<and> S_ISDIR i"
proof (induction ms arbitrary: w)
  case Nil
  then show ?case by simp
next
  case (Cons a ms)
  let ?t = "erase_target path a"
  from Cons.prems(1) obtain w2 where
    step: "erase_loop w2 path ms = (None, w')"
    and head: "nodes w2 ?t = None \<or>
      (\<exists>j. nodes w2 ?t = Some j \<and> (is_directory j \<or> unlink_refused j) \<and> \<not> stat_fails j \<and> S_ISDIR j)"
    by (cases "nodes w ?t") (auto simp: erase_step simp del: erase_loop.simps split: if_splits)
  show ?case
  proof (cases "erase_target path m = ?t")
    case True
    from erase_loop_frame [OF step] have "nodes w' ?t = nodes w2 ?t \<or> nodes w' ?t = None"
      by auto
    with head Cons.prems(3) True show ?thesis by auto
  next
    case False
    with Cons.prems(2) have "m \<in> set ms" by auto
    from Cons.IH [OF step this Cons.prems(3)] show ?thesis .
  qed
qed

text \<open>
  When the loop throws, the exception is that of the failed deletion, the name it stopped
  at could not be unlinked and is no directory for \<open>stat\<close>, and the matches after it were
  not processed.
\<close>

lemma erase_loop_aborts:
  "erase_loop w path ms = (Some e, w') \<Longrightarrow>
   e = runtime_error ''Deleting file failed'' \<and>
   (\<exists>done m rest i. ms = done @ m # rest \<and> erase_loop w path done = (None, w') \<and>
      nodes w' (erase_target path m) = Some i \<and> (is_directory i \<or> unlink_refused i) \<and>
      (stat_fails i \<or> \<not> S_ISDIR i))"
proof (induction ms arbitrary: w)
  case Nil
  then show ?case by simp
next
  case (Cons a ms)
  let ?t = "erase_target path a"
  consider (stop) i where "nodes w ?t = Some i" "is_directory i \<or> unlink_refused i"
      "stat_fails i \<or> \<not> S_ISDIR i"
    | (go) w2 where "erase_loop w2 path ms = (Some e, w')"
        "\<And>done. erase_loop w path (a # done) = erase_loop w2 path done"
    using Cons.prems
    by (cases "nodes w ?t") (auto simp: erase_step simp del: erase_loop.simps split: if_splits)
  then show ?case
  proof cases
    case stop
    with Cons.prems have "e = runtime_error ''Deleting file failed''" "w' = w"
      by (auto simp: erase_step simp del: erase_loop.simps)
    moreover have "a # ms = [] @ a # ms \<and> erase_loop w path [] = (None, w)"
      by simp
    ultimately show ?thesis using stop by blast
  next
    case go
    from Cons.IH [OF go(1)] obtain "done" m rest i where
      "e = runtime_error ''Deleting file failed''" "ms = done @ m # rest"
      "erase_loop w2 path done = (None, w')"
      "nodes w' (erase_target path m) = Some i" "is_directory i \<or> unlink_refused i"
      "stat_fails i \<or> \<not> S_ISDIR i"
      by blast
    moreover from this go(2) have "a # ms = (a # done) @ m # rest \<and> erase_loop w path (a # done) = (None, w')"
      by simp
    ultimately show ?thesis by blast
  qed
qed

lemma erase_loop_completes:
  "(\<forall>m\<in>set ms. \<forall>i. nodes w (erase_target path m) = Some i \<longrightarrow>
      is_directory i \<or> unlink_refused i \<longrightarrow> \<not> stat_fails i \<and> S_ISDIR i) \<Longrightarrow>
   fst (erase_loop w path ms) = None"
proof (induction ms arbitrary: w)
  case Nil
  then show ?case by simp
next
  case (Cons a ms)
  show ?case
    using Cons.prems
    by (cases "nodes w (erase_target path a)")
      (auto simp: erase_step simp del: erase_loop.simps intro!: Cons.IH split: if_splits)
qed

lemma erase_loop_absent:
  "(\<forall>m\<in>set ms. nodes w (erase_target path m) = None) \<Longrightarrow> erase_loop w path ms = (None, w)"
  by (induction ms) (simp_all add: erase_step del: erase_loop.simps(2))

lemma EraseDirectory_search_fails:
  "glob w (snprintf 512 (path @ ''/*'')) = None \<Longrightarrow>
   EraseDirectory w path = (Some (runtime_error ''Failed to start file search''), w)"
  by (simp add: EraseDirectory_def)

text \<open>
  The name that \<open>EraseDirectory\<close> builds for a match is the matched path when the match is
  \<open>path/name\<close> with no separator in \<open>name\<close>, and the whole fits the buffer of 512 bytes.
\<close>

lemma erase_target_child:
  assumes "PATH_SEPARATOR \<notin> set name" and "length (path @ ''/'' @ name) < 512"
  shows "erase_target path (path @ ''/'' @ name) = path @ ''/'' @ name"
proof -
  have "takeWhile (\<lambda>c. c \<noteq> PATH_SEPARATOR) (rev name @ CHR ''/'' # rev path) = rev name"
    using assms(1) by (simp add: takeWhile_append PATH_SEPARATOR_def)
  then have "FindFiles_Next (path @ ''/'' @ name) = name"
    by (simp add: FindFiles_Next_def)
  with assms(2) show ?thesis
    by (simp add: erase_target_def snprintf_def)
qed

text \<open>
  A rebuilt name that does not fit is cut: under a directory whose path has 506 bytes, the
  name unlinked for the child \<open>abcdefgh.txt\<close> is that of another child, \<open>abcd\<close>.
\<close>

lemma erase_target_cut:
  "erase_target (replicate 506 CHR ''d'') (replicate 506 CHR ''d'' @ ''/abcdefgh.txt'') =
     replicate 506 CHR ''d'' @ ''/abcd''"
proof -
  have "takeWhile (\<lambda>c. c \<noteq> PATH_SEPARATOR)
      (rev ''abcdefgh.txt'' @ CHR ''/'' # rev (replicate 506 CHR ''d'')) = rev ''abcdefgh.txt''"
    by (simp add: PATH_SEPARATOR_def)
  then have "FindFiles_Next (replicate 506 CHR ''d'' @ ''/abcdefgh.txt'') = ''abcdefgh.txt''"
    by (simp add: FindFiles_Next_def)
  then show ?thesis
    by (simp add: erase_target_def snprintf_def)
qed

text \<open>
  Where every match is rebuilt as itself, \<open>EraseDirectory(path)\<close> is shallow: it touches
  the matches and nothing else, it removes the matches that \<open>unlink\<close> accepts, and a match
  that \<open>unlink\<close> refuses is skipped when \<open>stat\<close> reports a directory and ends the call with
  the exception of the failed deletion otherwise, the matches after it left as they were.
\<close>

lemma EraseDirectory_shallow:
  assumes "glob w (snprintf 512 (path @ ''/*'')) = Some gl_pathv"
    and "\<forall>m\<in>set gl_pathv. erase_target path m = m"
    and "EraseDirectory w path = (thrown, w')"
  shows "(\<forall>q. nodes w' q = nodes w q \<or>
              (nodes w' q = None \<and> q \<in> set gl_pathv \<and>
               (\<exists>i. nodes w q = Some i \<and> \<not> is_directory i \<and> \<not> unlink_refused i)))
       \<and> (thrown = None \<longrightarrow>
            (\<forall>m\<in>set gl_pathv. \<forall>i. nodes w' m = Some i \<longrightarrow>
               (is_directory i \<or> unlink_refused i) \<and> \<not> stat_fails i \<and> S_ISDIR i))
       \<and> (thrown \<noteq> None \<longrightarrow>
            thrown = Some (runtime_error ''Deleting file failed'') \<and>
            (\<exists>done m rest i. gl_pathv = done @ m # rest \<and> erase_loop w path done = (None, w') \<and>
               nodes w' m = Some i \<and> (is_directory i \<or> unlink_refused i) \<and>
               (stat_fails i \<or> \<not> S_ISDIR i)))
       \<and> ((\<forall>m\<in>set gl_pathv. \<forall>i. nodes w m = Some i \<longrightarrow>
               is_directory i \<or> unlink_refused i \<longrightarrow> \<not> stat_fails i \<and> S_ISDIR i) \<longrightarrow> thrown = None)"
proof -
  from assms(1,3) have loop: "erase_loop w path gl_pathv = (thrown, w')"
    by (simp add: EraseDirectory_def)
  have same: "erase_target path ` set gl_pathv = set gl_pathv"
    using assms(2) by (auto simp: image_iff)
  have "\<forall>q. nodes w' q = nodes w q \<or>
              (nodes w' q = None \<and> q \<in> set gl_pathv \<and>
               (\<exists>i. nodes w q = Some i \<and> \<not> is_directory i \<and> \<not> unlink_refused i))"
    using erase_loop_frame [OF loop] unfolding same by blast
  moreover have "thrown = None \<longrightarrow>
            (\<forall>m\<in>set gl_pathv. \<forall>i. nodes w' m = Some i \<longrightarrow>
               (is_directory i \<or> unlink_refused i) \<and> \<not> stat_fails i \<and> S_ISDIR i)"
  proof (intro impI ballI allI)
    fix m i
    assume "thrown = None" and m: "m \<in> set gl_pathv" and "nodes w' m = Some i"
    with loop assms(2) have "erase_loop w path gl_pathv = (None, w')"
      "nodes w' (erase_target path m) = Some i"
      by simp_all
    from erase_loop_removes [OF this(1) m this(2)]
    show "(is_directory i \<or> unlink_refused i) \<and> \<not> stat_fails i \<and> S_ISDIR i" .
  qed
  moreover have "thrown \<noteq> None \<longrightarrow>
            thrown = Some (runtime_error ''Deleting file failed'') \<and>
            (\<exists>done m rest i. gl_pathv = done @ m # rest \<and> erase_loop w path done = (None, w') \<and>
               nodes w' m = Some i \<and> (is_directory i \<or> unlink_refused i) \<and>
               (stat_fails i \<or> \<not> S_ISDIR i))"
  proof
    assume "thrown \<noteq> None"
    then obtain e where "thrown = Some e" by auto
    with erase_loop_aborts [of w path gl_pathv e w'] loop
    obtain "done" m rest i where *: "thrown = Some (runtime_error ''Deleting file failed'')"
      "gl_pathv = done @ m # rest" "erase_loop w path done = (None, w')"
      "nodes w' (erase_target path m) = Some i" "is_directory i \<or> unlink_refused i"
      "stat_fails i \<or> \<not> S_ISDIR i"
      by blast
    from *(2) assms(2) have "erase_target path m = m" by simp
    with * show "thrown = Some (runtime_error ''Deleting file failed'') \<and>
            (\<exists>done m rest i. gl_pathv = done @ m # rest \<and> erase_loop w path done = (None, w') \<and>
               nodes w' m = Some i \<and> (is_directory i \<or> unlink_refused i) \<and>
               (stat_fails i \<or> \<not> S_ISDIR i))"
      by auto
  qed
  moreover have "(\<forall>m\<in>set gl_pathv. \<forall>i. nodes w m = Some i \<longrightarrow>
               is_directory i \<or> unlink_refused i \<longrightarrow> \<not> stat_fails i \<and> S_ISDIR i) \<longrightarrow> thrown = None"
  proof
    assume "\<forall>m\<in>set gl_pathv. \<forall>i. nodes w m = Some i \<longrightarrow>
               is_directory i \<or> unlink_refused i \<longrightarrow> \<not> stat_fails i \<and> S_ISDIR i"
    with assms(2) have "\<forall>m\<in>set gl_pathv. \<forall>i. nodes w (erase_target path m) = Some i \<longrightarrow>
               is_directory i \<or> unlink_refused i \<longrightarrow> \<not> stat_fails i \<and> S_ISDIR i"
      by simp
    from erase_loop_completes [OF this] loop show "thrown = None" by simp
  qed
  ultimately show ?thesis by blast
qed

text \<open>
  On the example machine the directory \<open>saves\<close> loses its two files and the symbolic link,
  and keeps its subdirectory with what lies in it; erasing \<open>locked\<close> stops at the file
  that cannot be unlinked, and the file after it stays.
\<close>

lemma EraseDirectory_shallow_example:
  "fst (EraseDirectory example_machine ''saves'') = None
   \<and> nodes (snd (EraseDirectory example_machine ''saves'')) ''saves/a.txt'' = None
   \<and> nodes (snd (EraseDirectory example_machine ''saves'')) ''saves/b.txt'' = None
   \<and> nodes (snd (EraseDirectory example_machine ''saves'')) ''saves/latest'' = None
   \<and> nodes (snd (EraseDirectory example_machine ''saves'')) ''saves/sub'' =
       nodes example_machine ''saves/sub''
   \<and> nodes (snd (EraseDirectory example_machine ''saves'')) ''saves/sub/c.txt'' =
       nodes example_machine ''saves/sub/c.txt''
   \<and> EraseDirectory example_machine ''locked'' =
       (Some (runtime_error ''Deleting file failed''), example_machine)"
proof -
  note targets = erase_target_def FindFiles_Next_def snprintf_def PATH_SEPARATOR_def
  have saves: "glob example_machine (snprintf 512 (''saves'' @ ''/*'')) =
      Some [''saves/b.txt'', ''saves/sub'', ''saves/latest'', ''saves/a.txt'']"
    and locked: "glob example_machine (snprintf 512 (''locked'' @ ''/*'')) = Some [''locked/x'', ''locked/y'']"
    by (simp_all add: example_machine_def snprintf_def)
  have t: "erase_target ''saves'' ''saves/b.txt'' = ''saves/b.txt''"
    "erase_target ''saves'' ''saves/sub'' = ''saves/sub''"
    "erase_target ''saves'' ''saves/latest'' = ''saves/latest''"
    "erase_target ''saves'' ''saves/a.txt'' = ''saves/a.txt''"
    "erase_target ''locked'' ''locked/x'' = ''locked/x''"
    "erase_target ''locked'' ''locked/y'' = ''locked/y''"
    by (simp_all add: targets)
  obtain thrown w' where run: "EraseDirectory example_machine ''saves'' = (thrown, w')"
    by (cases "EraseDirectory example_machine ''saves''")
  have "\<forall>m\<in>set [''saves/b.txt'', ''saves/sub'', ''saves/latest'', ''saves/a.txt''].
      erase_target ''saves'' m = m"
    by (simp add: t)
  note erased = EraseDirectory_shallow [OF saves this run]
  have ok: "thrown = None"
    using erased [THEN conjunct2, THEN conjunct2, THEN conjunct2]
    by (simp add: example_machine_def)
  have gone: "\<forall>m\<in>set [''saves/b.txt'', ''saves/sub'', ''saves/latest'', ''saves/a.txt''].
      \<forall>i. nodes w' m = Some i \<longrightarrow> (is_directory i \<or> unlink_refused i) \<and> \<not> stat_fails i \<and> S_ISDIR i"
    using ok erased [THEN conjunct2, THEN conjunct1] by simp
  have a: "nodes w' ''saves/a.txt'' = None"
    using gone erased [THEN conjunct1, THEN spec, of "''saves/a.txt''"]
    by (auto simp: example_machine_def)
  have b: "nodes w' ''saves/b.txt'' = None"
    using gone erased [THEN conjunct1, THEN spec, of "''saves/b.txt''"]
    by (auto simp: example_machine_def)
  have l: "nodes w' ''saves/latest'' = None"
    using gone erased [THEN conjunct1, THEN spec, of "''saves/latest''"]
    by (auto simp: example_machine_def)
  have sub: "nodes w' ''saves/sub'' = nodes example_machine ''saves/sub''"
    using erased [THEN conjunct1, THEN spec, of "''saves/sub''"]
    by (auto simp: example_machine_def)
  have c: "nodes w' ''saves/sub/c.txt'' = nodes example_machine ''saves/sub/c.txt''"
    using erased [THEN conjunct1, THEN spec, of "''saves/sub/c.txt''"]
    by (auto simp: example_machine_def)
  have x: "EraseDirectory example_machine ''locked'' =
      (Some (runtime_error ''Deleting file failed''), example_machine)"
    using locked by (simp add: EraseDirectory_def erase_step t example_machine_def del: erase_loop.simps)
  show ?thesis
    using ok a b l sub c x by (simp add: run)
qed

text \<open>
  C8. \<open>EraseDirectory(path)\<close> does not delete the paths that \<open>glob\<close> matched for \<open>path/*\<close>: it
  deletes \<open>path/name\<close>, built again from its argument and from what follows the last
  separator of each match. Where none of these built names exists, every \<open>unlink\<close> fails
  with \<open>ENOENT\<close>, which \<open>FileDelete\<close> takes for a success: the call returns normally and
  the machine is as it was, every matched child still there. So it is for the path
  \<open>sa[v]es\<close>, whose brackets \<open>glob\<close> reads as a set of characters: the matches are the
  children of \<open>saves\<close>, the names unlinked are \<open>sa[v]es/a.txt\<close>, \<open>sa[v]es/b.txt\<close> and so on, and
  \<open>saves\<close> keeps \<open>a.txt\<close> and \<open>b.txt\<close>.
\<close>

theorem EraseDirectory_keeps_matched_files:
  assumes "glob w (snprintf 512 (path @ ''/*'')) = Some gl_pathv"
    and "\<forall>m\<in>set gl_pathv. nodes w (erase_target path m) = None"
  shows "EraseDirectory w path = (None, w)"
  using assms by (simp add: EraseDirectory_def erase_loop_absent del: erase_loop.simps)

theorem EraseDirectory_keeps_matched_files_witness:
  "glob example_machine (snprintf 512 (''sa[v]es'' @ ''/*'')) =
     Some [''saves/b.txt'', ''saves/sub'', ''saves/latest'', ''saves/a.txt'']
   \<and> erase_target ''sa[v]es'' ''saves/a.txt'' = ''sa[v]es/a.txt''
   \<and> nodes example_machine ''sa[v]es/a.txt'' = None
   \<and> EraseDirectory example_machine ''sa[v]es'' = (None, example_machine)
   \<and> nodes (snd (EraseDirectory example_machine ''sa[v]es'')) ''saves/a.txt'' =
       Some \<lparr>is_directory = False, unlink_refused = False, stat_fails = False,
             S_ISDIR = False, S_IWUSR = True\<rparr>
   \<and> nodes (snd (EraseDirectory example_machine ''sa[v]es'')) ''saves/b.txt'' =
       Some \<lparr>is_directory = False, unlink_refused = False, stat_fails = False,
             S_ISDIR = False, S_IWUSR = True\<rparr>"
proof -
  note targets = erase_target_def FindFiles_Next_def snprintf_def PATH_SEPARATOR_def
  have matches: "glob example_machine (snprintf 512 (''sa[v]es'' @ ''/*'')) =
      Some [''saves/b.txt'', ''saves/sub'', ''saves/latest'', ''saves/a.txt'']"
    by (simp add: example_machine_def snprintf_def)
  have t: "erase_target ''sa[v]es'' ''saves/b.txt'' = ''sa[v]es/b.txt''"
    "erase_target ''sa[v]es'' ''saves/sub'' = ''sa[v]es/sub''"
    "erase_target ''sa[v]es'' ''saves/latest'' = ''sa[v]es/latest''"
    "erase_target ''sa[v]es'' ''saves/a.txt'' = ''sa[v]es/a.txt''"
    by (simp_all add: targets)
  have absent: "\<forall>m\<in>set [''saves/b.txt'', ''saves/sub'', ''saves/latest'', ''saves/a.txt''].
      nodes example_machine (erase_target ''sa[v]es'' m) = None"
    by (simp add: t example_machine_def)
  have kept: "EraseDirectory example_machine ''sa[v]es'' = (None, example_machine)"
    using EraseDirectory_keeps_matched_files [OF matches absent] .
  have a: "nodes example_machine ''sa[v]es/a.txt'' = None"
    and files: "nodes example_machine ''saves/a.txt'' =
       Some \<lparr>is_directory = False, unlink_refused = False, stat_fails = False,
             S_ISDIR = False, S_IWUSR = True\<rparr>"
      "nodes example_machine ''saves/b.txt'' =
       Some \<lparr>is_directory = False, unlink_refused = False, stat_fails = False,
             S_ISDIR = False, S_IWUSR = True\<rparr>"
    by (simp_all add: example_machine_def)
  show ?thesis
    using matches t(4) a files by (simp add: kept)
qed

end
